theory Spec2Isabelle
  imports Main "HOL-Library.Product_Lexorder" "HOL-Library.Sublist"
begin

section \<open>Strings of the host language\<close>

text \<open>
  Python strings are modelled as \<^typ>\<open>string\<close>; a character is read as a code point
  below 256. The characters that the quoting and tokenizing code tests for are named.
\<close>

definition dquote :: char where "dquote = CHR 0x22"
definition squote :: char where "squote = CHR 0x27"
definition backslash :: char where "backslash = CHR 0x5C"
definition tab :: char where "tab = CHR 0x09"
definition newline :: char where "newline = CHR 0x0A"
definition creturn :: char where "creturn = CHR 0x0D"

text \<open>\<^verbatim>\<open>sep.join(parts)\<close>\<close>

fun join :: "string \<Rightarrow> string list \<Rightarrow> string" where
  "join sep [] = []"
| "join sep [x] = x"
| "join sep (x # y # ys) = x @ sep @ join sep (y # ys)"

text \<open>\<^verbatim>\<open>sub in s\<close> on strings.\<close>

fun contains :: "string \<Rightarrow> string \<Rightarrow> bool" where
  "contains sub [] = (sub = [])"
| "contains sub (c # cs) = (take (length sub) (c # cs) = sub \<or> contains sub cs)"

text \<open>\<^verbatim>\<open>s.startswith(p)\<close>\<close>

definition startswith :: "string \<Rightarrow> string \<Rightarrow> bool" where
  "startswith s p = (take (length p) s = p)"

text \<open>
  \<^verbatim>\<open>str.isspace\<close> for one character below 256: the ASCII controls 9 to 13 and 28 to 31,
  the space, NEL (0x85) and the no-break space (0xA0).
\<close>

definition py_isspace :: "char \<Rightarrow> bool" where
  "py_isspace c = (let n = of_char c :: nat in
     (9 \<le> n \<and> n \<le> 13) \<or> (28 \<le> n \<and> n \<le> 32) \<or> n = 133 \<or> n = 160)"

text \<open>\<^verbatim>\<open>s.strip()\<close>\<close>

definition strip :: "string \<Rightarrow> string" where
  "strip s = rev (dropWhile py_isspace (rev (dropWhile py_isspace s)))"

text \<open>\<^verbatim>\<open>s.split()\<close>: the maximal runs of non-whitespace characters.\<close>

fun split_ws :: "string \<Rightarrow> string \<Rightarrow> string list" where
  "split_ws cur [] = (if cur = [] then [] else [cur])"
| "split_ws cur (c # cs) =
     (if py_isspace c then (if cur = [] then split_ws [] cs else cur # split_ws [] cs)
      else split_ws (cur @ [c]) cs)"

definition py_split :: "string \<Rightarrow> string list" where
  "py_split s = split_ws [] s"

text \<open>\<^verbatim>\<open>s.lower()\<close> on the ASCII letters.\<close>

definition lower_char :: "char \<Rightarrow> char" where
  "lower_char c = (let n = of_char c :: nat in
     if 65 \<le> n \<and> n \<le> 90 then char_of (n + 32) else c)"

definition lower :: "string \<Rightarrow> string" where
  "lower s = map lower_char s"

section \<open>Exceptions\<close>

text \<open>
  The exceptions that the modelled code can raise. Only \<open>KeyboardInterrupt\<close> is outside
  the class \<^verbatim>\<open>Exception\<close> among those a command or a prompt raises; \<open>SystemExit\<close>
  is raised by \<^verbatim>\<open>sys.exit\<close>.
\<close>

datatype py_exc =
    ValueError string
  | IndexError
  | UnboundLocalError
  | AttributeError
  | EOFError
  | KeyboardInterrupt
  | SystemExit int

section \<open>The two library functions between argument lists and shell strings\<close>

subsection \<open>\<^verbatim>\<open>subprocess.list2cmdline\<close>\<close>

text \<open>
  The standard library's function joins the arguments with spaces. An argument is put in
  double quotes when it contains a space or a tab or is empty; a double quote is written
  \<^verbatim>\<open>\"\<close>, and the backslashes before one, or before the closing quote, are doubled.
  \<open>l2c_chars\<close> is the loop over the characters of one argument, on the pair of the
  result so far and the backslashes pending in \<^verbatim>\<open>bs_buf\<close>.
\<close>

fun l2c_chars :: "string \<Rightarrow> string \<Rightarrow> string \<Rightarrow> string \<times> string" where
  "l2c_chars [] result bs_buf = (result, bs_buf)"
| "l2c_chars (c # cs) result bs_buf =
     (if c = backslash then l2c_chars cs result (bs_buf @ [c])
      else if c = dquote then
        l2c_chars cs (result @ replicate (length bs_buf * 2) backslash @ [backslash, dquote]) []
      else l2c_chars cs (result @ bs_buf @ [c]) [])"

definition l2c_needquote :: "string \<Rightarrow> bool" where
  "l2c_needquote arg = (CHR '' '' \<in> set arg \<or> tab \<in> set arg \<or> arg = [])"

definition l2c_arg :: "string \<Rightarrow> string \<Rightarrow> string" where
  "l2c_arg result arg =
     (let r0 = (if result \<noteq> [] then result @ '' '' else result);
          needquote = l2c_needquote arg;
          r1 = (if needquote then r0 @ [dquote] else r0);
          (r2, bs_buf) = l2c_chars arg r1 [];
          r3 = r2 @ bs_buf
      in if needquote then r3 @ bs_buf @ [dquote] else r3)"

definition list2cmdline :: "string list \<Rightarrow> string" where
  "list2cmdline seq = foldl l2c_arg [] seq"

subsection \<open>\<^verbatim>\<open>shlex.split\<close>\<close>

text \<open>
  \<^verbatim>\<open>shlex.split(s)\<close> runs the standard library's lexer in POSIX mode with
  \<^verbatim>\<open>whitespace_split\<close> set and no comment characters. The lexer is a state machine over
  the characters: state \<^verbatim>\<open>' '\<close> between tokens, \<^verbatim>\<open>'a'\<close> inside a word, a quote
  character inside quotes, the escape character after a backslash. \<open>escapedstate\<close> is the
  state to go back to after an escaped character, \<open>quoted\<close> records that the token had a
  quoted part, so that an empty quoted token is kept. Reaching the end of the input inside
  quotes or after a backslash raises \<^verbatim>\<open>ValueError\<close>.
\<close>

datatype lex_state = StWs | StWord | StQuote char | StEsc

definition shlex_whitespace :: "char \<Rightarrow> bool" where
  "shlex_whitespace c = (c = CHR '' '' \<or> c = tab \<or> c = creturn \<or> c = newline)"

definition shlex_quotes :: "char \<Rightarrow> bool" where
  "shlex_quotes c = (c = squote \<or> c = dquote)"

definition emit_token :: "string \<Rightarrow> py_exc + string list \<Rightarrow> py_exc + string list" where
  "emit_token tok r = (case r of Inl e \<Rightarrow> Inl e | Inr ts \<Rightarrow> Inr (tok # ts))"

fun shlex_tokens ::
  "lex_state \<Rightarrow> lex_state \<Rightarrow> string \<Rightarrow> bool \<Rightarrow> string \<Rightarrow> py_exc + string list" where
  "shlex_tokens st escapedstate tok quoted [] =
     (case st of
        StQuote q \<Rightarrow> Inl (ValueError ''No closing quotation'')
      | StEsc \<Rightarrow> Inl (ValueError ''No escaped character'')
      | _ \<Rightarrow> (if tok = [] \<and> \<not> quoted then Inr [] else Inr [tok]))"
| "shlex_tokens st escapedstate tok quoted (c # cs) =
     (case st of
        StWs \<Rightarrow>
          (if shlex_whitespace c then
             (if tok \<noteq> [] \<or> quoted then emit_token tok (shlex_tokens StWs StWs [] False cs)
              else shlex_tokens StWs escapedstate tok quoted cs)
           else if c = backslash then shlex_tokens StEsc StWord tok quoted cs
           else if shlex_quotes c then shlex_tokens (StQuote c) escapedstate tok quoted cs
           else shlex_tokens StWord escapedstate [c] quoted cs)
      | StQuote q \<Rightarrow>
          (if c = q then shlex_tokens StWord escapedstate tok True cs
           else if c = backslash \<and> q = dquote then shlex_tokens StEsc (StQuote q) tok True cs
           else shlex_tokens (StQuote q) escapedstate (tok @ [c]) True cs)
      | StEsc \<Rightarrow>
          (let tok' = (case escapedstate of
                         StQuote q \<Rightarrow> (if c \<noteq> backslash \<and> c \<noteq> q then tok @ [backslash] else tok)
                       | _ \<Rightarrow> tok)
           in shlex_tokens escapedstate escapedstate (tok' @ [c]) quoted cs)
      | StWord \<Rightarrow>
          (if shlex_whitespace c then
             (if tok \<noteq> [] \<or> quoted then emit_token tok (shlex_tokens StWs StWs [] False cs)
              else shlex_tokens StWs escapedstate tok quoted cs)
           else if shlex_quotes c then shlex_tokens (StQuote c) escapedstate tok quoted cs
           else if c = backslash then shlex_tokens StEsc StWord tok quoted cs
           else shlex_tokens StWord escapedstate (tok @ [c]) quoted cs))"

definition shlex_split :: "string \<Rightarrow> py_exc + string list" where
  "shlex_split s = shlex_tokens StWs StWs [] False s"

section \<open>The installer object, the host and the monad of effects\<close>

text \<open>The fields of \<^verbatim>\<open>BAGELSetup\<close> that the modelled methods read or write. Paths are strings.\<close>

record bagel_setup =
  env_name :: string
  use_conda :: bool
  system :: string
  python_executable :: string
  original_dir :: string
  bagel_repo_dir :: string

text \<open>
  A command is \<^verbatim>\<open>Union[str, List[str]]\<close>; \<open>CmdOther\<close> stands for a value of any other
  type, which \<^verbatim>\<open>run_command\<close> tests for.
\<close>

datatype command = CmdList "string list" | CmdStr string | CmdOther

text \<open>One call of \<^verbatim>\<open>subprocess.Popen\<close> followed by \<^verbatim>\<open>communicate\<close>.\<close>

record invocation =
  inv_args :: command
  inv_shell :: bool
  inv_cwd :: string
  inv_capture :: bool

text \<open>
  What the operating system makes of an invocation: the process ran and exited with a
  return code and its two output streams; or the launch raised \<^verbatim>\<open>FileNotFoundError\<close>
  (with \<^verbatim>\<open>e.filename\<close>, possibly absent, and \<^verbatim>\<open>str(e)\<close>); or it raised another
  \<^verbatim>\<open>Exception\<close>; or the operator interrupted it.
\<close>

datatype popen_result =
    Exited int string string
  | PopenFileNotFound "string option" string
  | PopenException string
  | PopenInterrupt

text \<open>The lines that the modelled methods print, one constructor for each \<^verbatim>\<open>print\<close>.\<close>

datatype run_msg =
    InvalidCommandType
  | Executing string "string option"
  | CommandFailed int
  | FailedStdout string
  | FailedStderr string
  | NotFound string
  | ErrorExecuting string string

datatype pip_msg =
    Installing string bool
  | Installed string
  | InstallFailed string
  | FlashAttnNeedsBuildTools
  | TorchMissing

datatype env_msg =
    CreatingCondaEnv
  | CondaEnvExists
  | UsingExistingCondaEnv
  | SkippingEnvSetup
  | RemovingEnv
  | RemoveEnvFailed string
  | AttemptingCreate string
  | CondaEnvCreated string
  | CreateFailedWith string string
  | UnsatisfiableHint
  | CreateExhausted string
  | PyForCondaEnv string
  | CondaJsonUnparsable
  | PyUndetermined

datatype req_msg =
    ReqsFileMissing
  | InstallingDependencies
  | UpgradingTooling
  | Upgrading string bool
  | UpgradeFailed string
  | UpgradeCompleted
  | UpgradeIncomplete
  | Step1PyTorch
  | AttemptingPyTorchPip
  | Py313Warning nat
  | Py312Note
  | PyTorchFailed
  | VerifyingPyTorch
  | PyTorchVerified string
  | PyTorchVerifyFailed
  | NumPyStage
  | NumPyFailed string
  | NumPyOk string
  | Step2Conda
  | Step3Reqs
  | ReqsProcessed
  | ReqsFailed
  | ImpImporterHint
  | ImpImporterRecommend
  | FlashAttnBuildFailed
  | SentencepieceHint
  | AttemptingFallback
  | FallbackDone
  | FallbackFailed

datatype fb_msg =
    FallbackStart
  | FallbackPkgFailed string
  | FallbackOk nat
  | FallbackNone

datatype gradio_msg =
    EnsuringGradio
  | GradioPresent
  | GradioNotFound
  | GradioInstalled
  | GradioInstallFailed

datatype main_msg =
    SetupDone
  | SetupFailed
  | SetupInterrupted
  | CriticalError py_exc

datatype msg =
    Run run_msg
  | Pip pip_msg
  | Env env_msg
  | Req req_msg
  | Fb fb_msg
  | Gradio gradio_msg
  | Top main_msg

text \<open>What \<^verbatim>\<open>json.loads(...).get("envs", [])\<close> and the loop over it make of a text.\<close>

datatype json_envs = JsonDecodeError | JsonEnvs "string list" | JsonFault py_exc

text \<open>
  The world outside the program. \<open>respond\<close> is the operating system: the outcome of an
  invocation, given the invocations before it. \<open>executed\<close> and \<open>printed\<close> record what
  the program has launched and printed. \<open>stdin\<close> holds the operator's answers to the
  prompts still to come. \<open>fs_is_file\<close> and \<open>fs_exists\<close> are the file system after the
  given invocations. \<open>host_minor\<close> is \<^verbatim>\<open>sys.version_info.minor\<close>, and \<open>json_loads_envs\<close>
  the JSON parser.
\<close>

record world =
  respond :: "invocation list \<Rightarrow> invocation \<Rightarrow> popen_result"
  executed :: "invocation list"
  printed :: "msg list"
  stdin :: "string list"
  fs_is_file :: "invocation list \<Rightarrow> string \<Rightarrow> bool"
  fs_exists :: "invocation list \<Rightarrow> string \<Rightarrow> bool"
  host_minor :: nat
  json_loads_envs :: "string \<Rightarrow> json_envs"

text \<open>
  A method is a function from the world to its result, or the exception it raises, and
  the world it leaves.
\<close>

type_synonym 'a prog = "world \<Rightarrow> (py_exc + 'a) \<times> world"

definition retM :: "'a \<Rightarrow> 'a prog" where
  "retM x w = (Inr x, w)"

definition raiseM :: "py_exc \<Rightarrow> 'a prog" where
  "raiseM e w = (Inl e, w)"

definition bindM :: "'a prog \<Rightarrow> ('a \<Rightarrow> 'b prog) \<Rightarrow> 'b prog" where
  "bindM m f w = (case m w of (Inl e, w') \<Rightarrow> (Inl e, w') | (Inr x, w') \<Rightarrow> f x w')"

definition seqM :: "unit prog \<Rightarrow> 'b prog \<Rightarrow> 'b prog" where
  "seqM m n = bindM m (\<lambda>_. n)"

definition say :: "msg \<Rightarrow> unit prog" where
  "say m w = (Inr (), w\<lparr>printed := printed w @ [m]\<rparr>)"

definition say_if :: "bool \<Rightarrow> msg \<Rightarrow> unit prog" where
  "say_if b m = (if b then say m else retM ())"

definition popen :: "invocation \<Rightarrow> popen_result prog" where
  "popen i w = (Inr (respond w (executed w) i), w\<lparr>executed := executed w @ [i]\<rparr>)"

section \<open>The Process Executor: \<^verbatim>\<open>run_command\<close>\<close>

text \<open>The log line of an argument list: arguments with a space are put in double quotes.\<close>

definition command_to_log :: "string list \<Rightarrow> string" where
  "command_to_log args =
     join '' '' (map (\<lambda>arg. if CHR '' '' \<in> set arg then [dquote] @ arg @ [dquote] else arg) args)"

text \<open>
  The first part of \<^verbatim>\<open>run_command\<close>: the log line and the argument for \<^verbatim>\<open>Popen\<close>.
  A list run through the shell is joined by \<open>list2cmdline\<close>; a string run without the
  shell is tokenized by \<open>shlex_split\<close>, whose \<^verbatim>\<open>ValueError\<close> is raised outside the
  \<^verbatim>\<open>try\<close>. \<open>None\<close> is the invalid command type.
\<close>

definition prepare_command :: "command \<Rightarrow> bool \<Rightarrow> py_exc + (string \<times> command) option" where
  "prepare_command cmd shell =
     (case cmd of
        CmdList args \<Rightarrow>
          (if shell then Inr (Some (list2cmdline args, CmdStr (list2cmdline args)))
           else Inr (Some (command_to_log args, CmdList args)))
      | CmdStr c \<Rightarrow>
          (if shell then Inr (Some (c, CmdStr c))
           else (case shlex_split c of
                   Inl e \<Rightarrow> Inl e
                 | Inr toks \<Rightarrow> Inr (Some (c, CmdList toks))))
      | CmdOther \<Rightarrow> Inr None)"

text \<open>\<^verbatim>\<open>str(cwd) if cwd else str(self.original_dir)\<close>\<close>

definition effective_cwd :: "bagel_setup \<Rightarrow> string option \<Rightarrow> string" where
  "effective_cwd s cwd =
     (case cwd of None \<Rightarrow> original_dir s | Some d \<Rightarrow> (if d = [] then original_dir s else d))"

definition cwd_given :: "string option \<Rightarrow> bool" where
  "cwd_given cwd = (case cwd of None \<Rightarrow> False | Some d \<Rightarrow> d \<noteq> [])"

text \<open>
  The name printed by the \<^verbatim>\<open>FileNotFoundError\<close> handler: \<^verbatim>\<open>e.filename\<close>, else the first
  element of a non-empty argument list, else the first word of the log line, where
  \<^verbatim>\<open>command_to_log.split()[0]\<close> raises \<^verbatim>\<open>IndexError\<close> on a log line of whitespace only.
\<close>

definition failed_file_reported :: "string option \<Rightarrow> command \<Rightarrow> string \<Rightarrow> py_exc + string" where
  "failed_file_reported filename actual log =
     (case filename of
        Some f \<Rightarrow> if f \<noteq> [] then Inr f
                  else (case actual of
                          CmdList (a # as) \<Rightarrow> Inr a
                        | _ \<Rightarrow> (if log = [] then Inr ''Unknown command''
                                else (case py_split log of [] \<Rightarrow> Inl IndexError | t # ts \<Rightarrow> Inr t)))
      | None \<Rightarrow> (case actual of
                   CmdList (a # as) \<Rightarrow> Inr a
                 | _ \<Rightarrow> (if log = [] then Inr ''Unknown command''
                         else (case py_split log of [] \<Rightarrow> Inl IndexError | t # ts \<Rightarrow> Inr t))))"

definition the_invocation :: "bagel_setup \<Rightarrow> command \<Rightarrow> bool \<Rightarrow> bool \<Rightarrow> string option \<Rightarrow> invocation" where
  "the_invocation s actual capture shell cwd =
     \<lparr>inv_args = actual, inv_shell = shell, inv_cwd = effective_cwd s cwd, inv_capture = capture\<rparr>"

text \<open>
  \<^verbatim>\<open>run_command(command, capture_output, check, shell, cwd)\<close> returns the triple
  \<^verbatim>\<open>(success, stdout, stderr)\<close>. A stream that was not captured is \<^verbatim>\<open>None\<close>, read as
  the empty string.
\<close>

definition run_command ::
  "bagel_setup \<Rightarrow> command \<Rightarrow> bool \<Rightarrow> bool \<Rightarrow> bool \<Rightarrow> string option \<Rightarrow> (bool \<times> string \<times> string) prog" where
  "run_command s cmd capture check shell cwd =
     (case prepare_command cmd shell of
        Inl e \<Rightarrow> raiseM e
      | Inr None \<Rightarrow> seqM (say (Run InvalidCommandType)) (retM (False, [], ''Invalid command type''))
      | Inr (Some (log, actual)) \<Rightarrow>
          seqM (say (Run (Executing log (if cwd_given cwd then Some (effective_cwd s cwd) else None))))
            (bindM (popen (the_invocation s actual capture shell cwd)) (\<lambda>r.
               case r of
                 Exited returncode out err \<Rightarrow>
                   (let stdout = (if capture then out else []);
                        stderr = (if capture then err else [])
                    in if check \<and> returncode \<noteq> 0 then
                         seqM (say (Run (CommandFailed returncode)))
                        (seqM (say_if (strip stdout \<noteq> []) (Run (FailedStdout (strip stdout))))
                        (seqM (say_if (strip stderr \<noteq> []) (Run (FailedStderr (strip stderr))))
                           (retM (False, stdout, stderr))))
                       else retM (True, stdout, stderr))
               | PopenFileNotFound filename str_e \<Rightarrow>
                   (case failed_file_reported filename actual log of
                      Inl e \<Rightarrow> raiseM e
                    | Inr f \<Rightarrow> seqM (say (Run (NotFound f))) (retM (False, [], str_e)))
               | PopenException str_e \<Rightarrow>
                   seqM (say (Run (ErrorExecuting log str_e))) (retM (False, [], str_e))
               | PopenInterrupt \<Rightarrow> raiseM KeyboardInterrupt)))"

section \<open>The Installer Command Builder\<close>

text \<open>
  \<^verbatim>\<open>shlex.quote\<close>: a string of safe characters only is left as it is; any other is put in
  single quotes, a single quote inside being written \<^verbatim>\<open>'"'"'\<close>.
\<close>

definition shlex_safe_char :: "char \<Rightarrow> bool" where
  "shlex_safe_char c = (let n = of_char c :: nat in
     (48 \<le> n \<and> n \<le> 57) \<or> (65 \<le> n \<and> n \<le> 90) \<or> (97 \<le> n \<and> n \<le> 122)
     \<or> c \<in> set ''_@%+=:,./-'')"

definition shlex_quote :: "string \<Rightarrow> string" where
  "shlex_quote t =
     (if t = [] then [squote, squote]
      else if list_all shlex_safe_char t then t
      else [squote]
           @ concat (map (\<lambda>c. if c = squote then [squote, dquote, squote, dquote, squote] else [c]) t)
           @ [squote])"

text \<open>
  \<^verbatim>\<open>_get_pip_executable_cmd_list\<close>: the base of every installer command, an argument list or,
  for an MSYS or MinGW interpreter on Windows, a string with the interpreter path in double
  quotes.
\<close>

definition is_msys_python_base :: "bagel_setup \<Rightarrow> bool" where
  "is_msys_python_base s =
     (system s = ''windows'' \<and> python_executable s \<noteq> []
      \<and> (contains ''msys'' (lower (python_executable s))
         \<or> contains ''mingw'' (lower (python_executable s))))"

definition get_pip_executable_cmd_list :: "bagel_setup \<Rightarrow> command" where
  "get_pip_executable_cmd_list s =
     (if use_conda s then
        CmdList [''conda'', ''run'', ''-n'', env_name s, ''python'', ''-m'', ''pip'']
      else if system s = ''windows'' \<and> is_msys_python_base s then
        CmdStr ([dquote] @ python_executable s @ [dquote] @ '' -m pip'')
      else CmdList [python_executable s, ''-m'', ''pip''])"

text \<open>
  The flags of an installation: \<^verbatim>\<open>extra_flags\<close>, followed by the two default flags unless
  one of them starts with \<^verbatim>\<open>--upgrade\<close>.
\<close>

definition install_flags :: "string list option \<Rightarrow> string list" where
  "install_flags extra_flags =
     (let cmd_flags = (case extra_flags of None \<Rightarrow> [] | Some fs \<Rightarrow> fs)
      in if \<not> list_ex (\<lambda>flag. startswith flag ''--upgrade'') cmd_flags
         then cmd_flags @ [''--no-cache-dir'', ''--disable-pip-version-check'']
         else cmd_flags)"

text \<open>
  The command and the shell flag that \<^verbatim>\<open>_install_package_with_pip\<close> hands to
  \<^verbatim>\<open>run_command\<close>. A base that is a list is run through the shell exactly when its first
  element is \<^verbatim>\<open>conda\<close>; the base comes from \<open>get_pip_executable_cmd_list\<close> and has three
  or seven elements, so \<open>hd\<close> reads its element 0. The source appends the default flags
  to the list of the caller when \<^verbatim>\<open>extra_flags\<close> is given; no caller gives one.
\<close>

definition pip_install_command :: "bagel_setup \<Rightarrow> string \<Rightarrow> string list option \<Rightarrow> command \<times> bool" where
  "pip_install_command s package_spec extra_flags =
     (let cmd_flags = install_flags extra_flags
      in case get_pip_executable_cmd_list s of
           CmdStr pip_base \<Rightarrow>
             (CmdStr (pip_base @ '' install '' @ join '' '' (map shlex_quote cmd_flags)
                      @ '' '' @ shlex_quote package_spec), True)
         | CmdList pip_base \<Rightarrow>
             (let use_shell = (hd pip_base = ''conda'');
                  install_command_parts = pip_base @ [''install''] @ cmd_flags @ [package_spec]
              in if use_shell then (CmdStr (list2cmdline install_command_parts), True)
                 else (CmdList install_command_parts, False))
         | CmdOther \<Rightarrow> (CmdOther, False))"

definition no_module_named_torch :: string where
  "no_module_named_torch = ''No module named '' @ [squote] @ ''torch'' @ [squote]"

definition install_package_with_pip ::
  "bagel_setup \<Rightarrow> string \<Rightarrow> string option \<Rightarrow> string list option \<Rightarrow> bool prog" where
  "install_package_with_pip s package_spec cwd_for_install extra_flags =
     (let (final_command, use_shell) = pip_install_command s package_spec extra_flags;
          cwd = (case cwd_for_install of None \<Rightarrow> bagel_repo_dir s | Some d \<Rightarrow> d)
      in seqM (say (Pip (Installing package_spec use_shell)))
        (bindM (run_command s final_command True True use_shell (Some cwd)) (\<lambda>(success, stdout, stderr).
           if success then seqM (say (Pip (Installed package_spec))) (retM True)
           else seqM (say (Pip (InstallFailed package_spec)))
               (seqM (if stderr \<noteq> [] \<and> contains ''Could not build wheels for'' stderr
                         \<and> contains ''flash-attn'' package_spec
                      then say (Pip FlashAttnNeedsBuildTools)
                      else say_if (stderr \<noteq> [] \<and> contains no_module_named_torch stderr) (Pip TorchMissing))
                  (retM False)))))"

section \<open>The Installation Pipeline\<close>

text \<open>Paths are joined with the separator of the host.\<close>

definition path_sep :: "bagel_setup \<Rightarrow> string" where
  "path_sep s = (if system s = ''windows'' then [backslash] else ''/'')"

definition path_join :: "bagel_setup \<Rightarrow> string \<Rightarrow> string \<Rightarrow> string" where
  "path_join s d name = d @ path_sep s @ name"

definition requirements_file :: "bagel_setup \<Rightarrow> string" where
  "requirements_file s = path_join s (bagel_repo_dir s) ''requirements.txt''"

definition is_file :: "string \<Rightarrow> bool prog" where
  "is_file p w = (Inr (fs_is_file w (executed w) p), w)"

definition path_exists :: "string \<Rightarrow> bool prog" where
  "path_exists p w = (Inr (fs_exists w (executed w) p), w)"

definition get_host_minor :: "nat prog" where
  "get_host_minor w = (Inr (host_minor w), w)"

text \<open>
  A command made of the installer base and more arguments, as each stage builds it:
  \<open>tail_str\<close> is appended to a base that is a string, \<open>tail\<close> to a base that is a list.
\<close>

definition pip_command :: "command \<Rightarrow> string \<Rightarrow> string list \<Rightarrow> command \<times> bool" where
  "pip_command base tail_str tail =
     (case base of
        CmdStr b \<Rightarrow> (CmdStr (b @ tail_str), True)
      | CmdList b \<Rightarrow>
          (if hd b = ''conda'' then (CmdStr (list2cmdline (b @ tail)), True)
           else (CmdList (b @ tail), False))
      | CmdOther \<Rightarrow> (CmdOther, False))"

text \<open>Stage ToolingUpgrade: the loop over \<^verbatim>\<open>pip\<close>, \<^verbatim>\<open>setuptools\<close> and \<^verbatim>\<open>wheel\<close>.\<close>

fun upgrade_loop :: "bagel_setup \<Rightarrow> command \<Rightarrow> string list \<Rightarrow> bool \<Rightarrow> bool prog" where
  "upgrade_loop s base [] all_upgraded_successfully = retM all_upgraded_successfully"
| "upgrade_loop s base (pkg # pkgs) all_upgraded_successfully =
     (let (final_upgrade_cmd, use_shell_upgrade) =
            pip_command base ('' install --upgrade '' @ shlex_quote pkg) [''install'', ''--upgrade'', pkg]
      in seqM (say (Req (Upgrading pkg use_shell_upgrade)))
        (bindM (run_command s final_upgrade_cmd True True use_shell_upgrade None) (\<lambda>(success, stdout, stderr).
           if \<not> success then
             seqM (say (Req (UpgradeFailed pkg))) (upgrade_loop s base pkgs False)
           else upgrade_loop s base pkgs all_upgraded_successfully)))"

definition upgrade_tooling :: "bagel_setup \<Rightarrow> unit prog" where
  "upgrade_tooling s =
     seqM (say (Req UpgradingTooling))
    (bindM (upgrade_loop s (get_pip_executable_cmd_list s) [''pip'', ''setuptools'', ''wheel''] True)
       (\<lambda>all_upgraded_successfully.
          say (Req (if all_upgraded_successfully then UpgradeCompleted else UpgradeIncomplete))))"

text \<open>
  Stage FrameworkInstall: the specifications chosen by the host's minor version, installed
  in order up to the first failure.
\<close>

definition pt_pip_specs :: "nat \<Rightarrow> string list" where
  "pt_pip_specs venv_py_minor =
     (if venv_py_minor \<ge> 13 then [''torch'', ''torchvision'', ''torchaudio'']
      else if venv_py_minor = 12 then [''torch>=2.1'', ''torchvision>=0.16'', ''torchaudio>=2.1'']
      else [''torch>=2.0.0'', ''torchvision'', ''torchaudio''])"

fun install_until_failure :: "bagel_setup \<Rightarrow> string list \<Rightarrow> bool prog" where
  "install_until_failure s [] = retM True"
| "install_until_failure s (spec # specs) =
     bindM (install_package_with_pip s spec (Some (bagel_repo_dir s)) None) (\<lambda>ok.
       if \<not> ok then retM False else install_until_failure s specs)"

definition install_pytorch :: "bagel_setup \<Rightarrow> bool prog" where
  "install_pytorch s =
     seqM (say (Req Step1PyTorch))
    (seqM (say (Req AttemptingPyTorchPip))
    (bindM get_host_minor (\<lambda>venv_py_minor.
     seqM (if venv_py_minor \<ge> 13 then say (Req (Py313Warning venv_py_minor))
           else say_if (venv_py_minor = 12) (Req Py312Note))
    (bindM (install_until_failure s (pt_pip_specs venv_py_minor)) (\<lambda>pytorch_fully_installed.
     seqM (say_if (\<not> pytorch_fully_installed) (Req PyTorchFailed))
          (retM pytorch_fully_installed))))))"

text \<open>
  Stage Verification: the inline import check, run with strict checking. It fails when the
  command fails or prints nothing. The line printed on success shows the output indented;
  the model keeps the stripped output.
\<close>

definition verify_py_code :: string where
  "verify_py_code =
     ''import torch; pv=torch.__version__; ca=torch.cuda.is_available(); print(f''
     @ [squote] @ ''PyTorch {{pv}}'' @ [backslash] @ ''nCUDA available: {{ca}}'' @ [squote] @ '')''"

definition verify_command :: "command \<Rightarrow> py_exc + command \<times> bool" where
  "verify_command verify_cmd_base =
     (case verify_cmd_base of
        CmdStr b \<Rightarrow> Inr (CmdStr (b @ '' -c '' @ shlex_quote verify_py_code), True)
      | CmdList b \<Rightarrow>
          (if hd b = ''conda'' then
             (if length b \<le> 4 then Inl IndexError
              else Inr (CmdStr (list2cmdline (take 4 b @ [b ! 4, ''-c'', verify_py_code])), True))
           else Inr (CmdList [hd b, ''-c'', verify_py_code], False))
      | CmdOther \<Rightarrow> Inr (CmdOther, False))"

definition verify_pytorch :: "bagel_setup \<Rightarrow> bool prog" where
  "verify_pytorch s =
     seqM (say (Req VerifyingPyTorch))
       (case verify_command (get_pip_executable_cmd_list s) of
          Inl e \<Rightarrow> raiseM e
        | Inr (verify_cmd_to_run, use_shell_for_verify) \<Rightarrow>
            bindM (run_command s verify_cmd_to_run True True use_shell_for_verify None)
              (\<lambda>(success_torch_check, stdout_torch_check, stderr).
                 if success_torch_check \<and> stdout_torch_check \<noteq> [] then
                   seqM (say (Req (PyTorchVerified (strip stdout_torch_check)))) (retM True)
                 else seqM (say (Req PyTorchVerifyFailed)) (retM False)))"

text \<open>Stage ArrayLibraryPin: a failure is a warning only.\<close>

definition numpy_spec_to_try :: "nat \<Rightarrow> string" where
  "numpy_spec_to_try minor =
     (if minor \<ge> 12 then ''numpy>=1.26.0''
      else if minor = 11 then ''numpy>=1.23.2'' else ''numpy>=1.21.2'')"

definition preinstall_numpy :: "bagel_setup \<Rightarrow> unit prog" where
  "preinstall_numpy s =
     seqM (say (Req NumPyStage))
    (bindM get_host_minor (\<lambda>minor.
     bindM (install_package_with_pip s (numpy_spec_to_try minor) (Some (bagel_repo_dir s)) None) (\<lambda>ok.
       if \<not> ok then say (Req (NumPyFailed (numpy_spec_to_try minor)))
       else say (Req (NumPyOk (numpy_spec_to_try minor))))))"

text \<open>Stage FallbackCriticalSet: \<^verbatim>\<open>install_critical_packages_fallback\<close>.\<close>

definition critical_pkgs :: "string list" where
  "critical_pkgs =
     [''transformers>=4.30.0'', ''accelerate'', ''diffusers'', ''huggingface_hub'', ''safetensors'',
      ''Pillow'', ''opencv-python'', ''gradio'', ''einops'', ''sentencepiece'', ''tokenizers'',
      ''scikit-image'', ''jupyterlab'', ''notebook'']"

fun fallback_loop :: "bagel_setup \<Rightarrow> string list \<Rightarrow> nat \<Rightarrow> nat prog" where
  "fallback_loop s [] ok_count = retM ok_count"
| "fallback_loop s (pkg # pkgs) ok_count =
     bindM (install_package_with_pip s pkg (Some (bagel_repo_dir s)) None) (\<lambda>ok.
       if ok then fallback_loop s pkgs (ok_count + 1)
       else seqM (say (Fb (FallbackPkgFailed pkg))) (fallback_loop s pkgs ok_count))"

definition install_critical_packages_fallback :: "bagel_setup \<Rightarrow> bool prog" where
  "install_critical_packages_fallback s =
     seqM (say (Fb FallbackStart))
    (bindM (fallback_loop s critical_pkgs 0) (\<lambda>ok_count.
       if ok_count > 0 then seqM (say (Fb (FallbackOk ok_count))) (retM True)
       else seqM (say (Fb FallbackNone)) (retM False)))"

text \<open>
  \<^verbatim>\<open>install_gradio\<close>. With a base that is a string, \<^verbatim>\<open>check_cmd_list_parts\<close> is read
  before it is assigned, which raises \<^verbatim>\<open>UnboundLocalError\<close>. The check is run without
  strict checking.
\<close>

definition gradio_check_command :: "command \<Rightarrow> py_exc + command \<times> bool" where
  "gradio_check_command pip_base =
     (case pip_base of
        CmdStr b \<Rightarrow> Inl UnboundLocalError
      | CmdList b \<Rightarrow>
          (if hd b = ''conda'' then Inr (CmdStr (list2cmdline (b @ [''show'', ''gradio''])), True)
           else Inr (CmdList (b @ [''show'', ''gradio'']), False))
      | CmdOther \<Rightarrow> Inr (CmdOther, False))"

definition install_gradio :: "bagel_setup \<Rightarrow> bool prog" where
  "install_gradio s =
     seqM (say (Gradio EnsuringGradio))
       (case gradio_check_command (get_pip_executable_cmd_list s) of
          Inl e \<Rightarrow> raiseM e
        | Inr (final_check_cmd, use_shell_for_check) \<Rightarrow>
            bindM (run_command s final_check_cmd True False use_shell_for_check None)
              (\<lambda>(success, stdout, stderr).
                 if success then seqM (say (Gradio GradioPresent)) (retM True)
                 else seqM (say (Gradio GradioNotFound))
                     (bindM (install_package_with_pip s ''gradio'' (Some (bagel_repo_dir s)) None) (\<lambda>ok.
                        if ok then seqM (say (Gradio GradioInstalled)) (retM True)
                        else seqM (say (Gradio GradioInstallFailed)) (retM False)))))"

text \<open>
  Stage BulkRequirements, with what follows it: the helper for Gradio after a success, the
  hint for a known error text and the fallback stage after a failure.
\<close>

definition imp_importer_error :: string where
  "imp_importer_error =
     ''AttributeError: module '' @ [squote] @ ''pkgutil'' @ [squote]
     @ '' has no attribute '' @ [squote] @ ''ImpImporter'' @ [squote]"

definition bulk_failure_hint :: "string \<Rightarrow> unit prog" where
  "bulk_failure_hint stderr_req =
     (if stderr_req \<noteq> [] \<and> contains imp_importer_error stderr_req then
        seqM (say (Req ImpImporterHint)) (say (Req ImpImporterRecommend))
      else if stderr_req \<noteq> [] \<and> contains ''flash-attn'' stderr_req
              \<and> contains ''Could not build wheels'' stderr_req then
        say (Req FlashAttnBuildFailed)
      else say_if (stderr_req \<noteq> [] \<and> contains ''sentencepiece'' stderr_req
                   \<and> contains ''FileNotFoundError'' stderr_req) (Req SentencepieceHint))"

definition bulk_requirements :: "bagel_setup \<Rightarrow> bool prog" where
  "bulk_requirements s =
     seqM (say (Req Step3Reqs))
       (let (final_req_cmd_for_run, use_shell_for_req) =
              pip_command (get_pip_executable_cmd_list s)
                ('' install -r '' @ shlex_quote (requirements_file s))
                [''install'', ''-r'', requirements_file s]
        in bindM (run_command s final_req_cmd_for_run True True use_shell_for_req (Some (bagel_repo_dir s)))
             (\<lambda>(success_req, stdout, stderr_req).
                if success_req then
                  seqM (say (Req ReqsProcessed)) (bindM (install_gradio s) (\<lambda>_. retM True))
                else
                  seqM (say (Req ReqsFailed))
                 (seqM (bulk_failure_hint stderr_req)
                 (seqM (say (Req AttemptingFallback))
                 (bindM (install_critical_packages_fallback s) (\<lambda>ok.
                    if ok then seqM (say (Req FallbackDone)) (retM True)
                    else seqM (say (Req FallbackFailed)) (retM False)))))))"

text \<open>
  \<^verbatim>\<open>install_requirements\<close>: the manifest check, then the stages in the order of the source.
  A failure of the framework installation or of its verification returns at once.
\<close>

definition install_requirements :: "bagel_setup \<Rightarrow> bool prog" where
  "install_requirements s =
     bindM (is_file (requirements_file s)) (\<lambda>present.
       if \<not> present then seqM (say (Req ReqsFileMissing)) (retM False)
       else
         seqM (say (Req InstallingDependencies))
        (seqM (upgrade_tooling s)
        (bindM (install_pytorch s) (\<lambda>pytorch_fully_installed.
           if \<not> pytorch_fully_installed then retM False
           else
             bindM (verify_pytorch s) (\<lambda>verified.
               if \<not> verified then retM False
               else
                 seqM (preinstall_numpy s)
                (seqM (say_if (use_conda s) (Req Step2Conda))
                   (bulk_requirements s)))))))"

section \<open>The Environment Provisioner for the conda backend\<close>

text \<open>\<^verbatim>\<open>s.splitlines()\<close>, on the line boundaries below 256.\<close>

definition is_linebreak :: "char \<Rightarrow> bool" where
  "is_linebreak c = (let n = of_char c :: nat in
     (10 \<le> n \<and> n \<le> 13) \<or> (28 \<le> n \<and> n \<le> 30) \<or> n = 133)"

fun splitlines_from :: "string \<Rightarrow> string \<Rightarrow> string list" where
  "splitlines_from cur [] = (if cur = [] then [] else [cur])"
| "splitlines_from cur [c] = (if is_linebreak c then [cur] else [cur @ [c]])"
| "splitlines_from cur (c # d # ds) =
     (if c = creturn \<and> d = newline then cur # splitlines_from [] ds
      else if is_linebreak c then cur # splitlines_from [] (d # ds)
      else splitlines_from (cur @ [c]) (d # ds))"

definition splitlines :: "string \<Rightarrow> string list" where
  "splitlines t = splitlines_from [] t"

text \<open>\<^verbatim>\<open>str(n)\<close> for a natural number.\<close>

fun dec :: "nat \<Rightarrow> string" where
  "dec n = (if n < 10 then [char_of (48 + n)] else dec (n div 10) @ [char_of (48 + n mod 10)])"

text \<open>\<^verbatim>\<open>input(...)\<close>: the operator's next answer, \<^verbatim>\<open>EOFError\<close> when there is none.\<close>

definition read_input :: "string prog" where
  "read_input w = (case stdin w of [] \<Rightarrow> (Inl EOFError, w) | a # as \<Rightarrow> (Inr a, w\<lparr>stdin := as\<rparr>))"

text \<open>
  \<^verbatim>\<open>pathlib.Path\<close>. A path is read as a drive, a root and its components. The
  components are the pieces between separators, the empty ones and the pieces \<^verbatim>\<open>.\<close>
  left out; on Windows the backslash separates as well as the slash. On a POSIX host there
  is no drive, and the root is \<^verbatim>\<open>//\<close> for a path that begins with exactly two slashes
  and \<^verbatim>\<open>/\<close> for one that begins with one slash or with more than two. On Windows the
  drive is the first two characters when the second is a colon, and the root is a backslash
  when a separator follows the drive; the drive of a UNC path (\<^verbatim>\<open>\\server\share\<close>) is
  not modelled. \<^verbatim>\<open>Path(p).name\<close> is the last component, and \<^verbatim>\<open>str(Path(p) / rel)\<close>
  writes the drive, the root and the components of both, joined by the separator of the
  host.
\<close>

fun components_from :: "(char \<Rightarrow> bool) \<Rightarrow> string \<Rightarrow> string \<Rightarrow> string list" where
  "components_from is_sep cur [] = [cur]"
| "components_from is_sep cur (c # cs) =
     (if is_sep c then cur # components_from is_sep [] cs
      else components_from is_sep (cur @ [c]) cs)"

definition path_is_sep :: "bagel_setup \<Rightarrow> char \<Rightarrow> bool" where
  "path_is_sep s c = (c = CHR ''/'' \<or> (system s = ''windows'' \<and> c = backslash))"

definition path_drive :: "bagel_setup \<Rightarrow> string \<Rightarrow> string" where
  "path_drive s p = (if system s = ''windows'' \<and> take 1 (drop 1 p) = '':'' then take 2 p else [])"

definition path_root :: "bagel_setup \<Rightarrow> string \<Rightarrow> string" where
  "path_root s p =
     (let leading = length (takeWhile (path_is_sep s) (drop (length (path_drive s p)) p))
      in if system s = ''windows'' then (if leading \<ge> 1 then [backslash] else [])
         else if leading = 2 then ''//'' else if leading \<ge> 1 then ''/'' else [])"

definition path_parts :: "bagel_setup \<Rightarrow> string \<Rightarrow> string list" where
  "path_parts s p =
     filter (\<lambda>part. part \<noteq> [] \<and> part \<noteq> ''.'')
       (components_from (path_is_sep s) [] (drop (length (path_drive s p)) p))"

definition path_name :: "bagel_setup \<Rightarrow> string \<Rightarrow> string" where
  "path_name s p = (if path_parts s p = [] then [] else last (path_parts s p))"

definition path_child :: "bagel_setup \<Rightarrow> string \<Rightarrow> string \<Rightarrow> string" where
  "path_child s p rel =
     path_drive s p @ path_root s p @ join (path_sep s) (path_parts s p @ path_parts s rel)"

text \<open>
  \<^verbatim>\<open>_update_python_executable_for_conda_env\<close>: asks conda for its environments and looks for
  the first one of the right name whose interpreter exists. It returns nothing; when no
  interpreter is found it prints a warning and leaves \<^verbatim>\<open>python_executable\<close> as it was.
\<close>

definition env_python :: "bagel_setup \<Rightarrow> string \<Rightarrow> string" where
  "env_python s env_path =
     path_child s env_path (if system s = ''windows'' then ''python.exe'' else ''bin/python'')"

fun find_env_python :: "bagel_setup \<Rightarrow> string list \<Rightarrow> string option prog" where
  "find_env_python s [] = retM None"
| "find_env_python s (env_path # env_paths) =
     (if path_name s env_path = env_name s then
        (let py_exe = env_python s env_path
         in bindM (path_exists py_exe) (\<lambda>found.
              if found then retM (Some py_exe) else find_env_python s env_paths))
      else find_env_python s env_paths)"

definition json_envs_of :: "string \<Rightarrow> json_envs prog" where
  "json_envs_of t w = (Inr (json_loads_envs w t), w)"

definition update_python_executable_for_conda_env :: "bagel_setup \<Rightarrow> bagel_setup prog" where
  "update_python_executable_for_conda_env s =
     bindM (run_command s (CmdList [''conda'', ''env'', ''list'', ''--json'']) True False False None)
       (\<lambda>(success_info, stdout_info, stderr).
          if success_info then
            bindM (json_envs_of stdout_info) (\<lambda>env_data.
              case env_data of
                JsonDecodeError \<Rightarrow>
                  seqM (say (Env CondaJsonUnparsable)) (seqM (say (Env PyUndetermined)) (retM s))
              | JsonFault e \<Rightarrow> raiseM e
              | JsonEnvs envs \<Rightarrow>
                  bindM (find_env_python s envs) (\<lambda>r.
                    case r of
                      Some py_exe \<Rightarrow>
                        seqM (say (Env (PyForCondaEnv py_exe))) (retM (s\<lparr>python_executable := py_exe\<rparr>))
                    | None \<Rightarrow> seqM (say (Env PyUndetermined)) (retM s)))
          else seqM (say (Env PyUndetermined)) (retM s))"

text \<open>
  The interpreter versions to try. A version string \<^verbatim>\<open>3.N\<close> is represented by its minor
  number \<open>N\<close>, which is what the sort key \<^verbatim>\<open>int(v.split('.')[1])\<close> reads back from it;
  \<open>py_ver_str\<close> writes the string. The host's own version is added when its minor number is
  at most 11, the duplicates are removed by \<^verbatim>\<open>set\<close>, and the list is sorted on the key
  \<^verbatim>\<open>(minor < 13, -minor)\<close>.
\<close>

definition py_ver_str :: "nat \<Rightarrow> string" where
  "py_ver_str minor = ''3.'' @ dec minor"

definition py_versions_to_try :: "nat \<Rightarrow> nat list" where
  "py_versions_to_try current_py_ver_minor =
     sort_key (\<lambda>v. (v < 13, - int v))
       (remdups ((if current_py_ver_minor \<le> 11 then [current_py_ver_minor] else []) @ [11, 10, 12]))"

definition create_cmd_list :: "bagel_setup \<Rightarrow> nat \<Rightarrow> string list" where
  "create_cmd_list s py_ver =
     [''conda'', ''create'', ''-n'', env_name s, ''python='' @ py_ver_str py_ver,
      ''-c'', ''pytorch'', ''-c'', ''nvidia'', ''-c'', ''conda-forge'', ''-y'']"

text \<open>The loop over the candidates; it stops at the first environment created.\<close>

fun create_loop :: "bagel_setup \<Rightarrow> nat list \<Rightarrow> (bool \<times> bagel_setup) prog" where
  "create_loop s [] = retM (False, s)"
| "create_loop s (py_ver # py_vers) =
     seqM (say (Env (AttemptingCreate (py_ver_str py_ver))))
    (bindM (run_command s (CmdList (create_cmd_list s py_ver)) True True False None)
       (\<lambda>(success_create, stdout, stderr_create).
          if success_create then
            seqM (say (Env (CondaEnvCreated (py_ver_str py_ver))))
           (bindM (update_python_executable_for_conda_env s) (\<lambda>s'. retM (True, s')))
          else
            seqM (say (Env (CreateFailedWith (py_ver_str py_ver) (strip stderr_create))))
           (seqM (say_if (contains ''UnsatisfiableError'' stderr_create) (Env UnsatisfiableHint))
              (create_loop s py_vers))))"

definition create_with_versions :: "bagel_setup \<Rightarrow> nat list \<Rightarrow> (bool \<times> bagel_setup) prog" where
  "create_with_versions s versions =
     bindM (create_loop s versions) (\<lambda>(env_created, s').
       if \<not> env_created then
         seqM (say (Env (CreateExhausted (join '', '' (map py_ver_str versions)))))
           (retM (False, s'))
       else retM (True, s'))"

definition create_new_conda_environment :: "bagel_setup \<Rightarrow> (bool \<times> bagel_setup) prog" where
  "create_new_conda_environment s =
     bindM get_host_minor (\<lambda>current_py_ver_minor.
       create_with_versions s (py_versions_to_try current_py_ver_minor))"

text \<open>
  \<^verbatim>\<open>create_conda_environment\<close>: looks for an environment whose line in
  \<^verbatim>\<open>conda env list\<close> starts with the name; an existing one is used, skipped or removed on
  the operator's answer; then the creation.
\<close>

definition env_listed :: "bagel_setup \<Rightarrow> string \<Rightarrow> bool" where
  "env_listed s stdout_list = list_ex (\<lambda>line. startswith (strip line) (env_name s)) (splitlines stdout_list)"

definition create_conda_environment :: "bagel_setup \<Rightarrow> (bool \<times> bagel_setup) prog" where
  "create_conda_environment s =
     seqM (say (Env CreatingCondaEnv))
    (bindM (run_command s (CmdList [''conda'', ''env'', ''list'']) True False False None)
       (\<lambda>(success_list, stdout_list, stderr).
          if success_list \<and> env_listed s stdout_list then
            seqM (say (Env CondaEnvExists))
           (bindM read_input (\<lambda>answer.
              if lower answer = ''u'' then
                seqM (say (Env UsingExistingCondaEnv))
               (bindM (update_python_executable_for_conda_env s) (\<lambda>s'. retM (True, s')))
              else if lower answer = ''s'' then
                seqM (say (Env SkippingEnvSetup)) (retM (False, s))
              else
                seqM (say (Env RemovingEnv))
               (bindM (run_command s (CmdList [''conda'', ''env'', ''remove'', ''-n'', env_name s, ''-y''])
                         True True False None)
                  (\<lambda>(success_remove, stdout, stderr_remove).
                     if \<not> success_remove then
                       seqM (say (Env (RemoveEnvFailed (strip stderr_remove)))) (retM (False, s))
                     else create_new_conda_environment s))))
          else create_new_conda_environment s))"

section \<open>The top level\<close>

text \<open>Which exceptions the clause \<^verbatim>\<open>except Exception\<close> catches.\<close>

fun is_Exception :: "py_exc \<Rightarrow> bool" where
  "is_Exception KeyboardInterrupt = False"
| "is_Exception (SystemExit n) = False"
| "is_Exception e = True"

text \<open>
  The \<^verbatim>\<open>try\<close> statement at the end of \<^verbatim>\<open>main\<close>, for any behaviour \<open>run_setup\<close> of the
  orchestrator: the body, then the two handlers. \<^verbatim>\<open>sys.exit(n)\<close> raises
  \<^verbatim>\<open>SystemExit\<close>, which neither handler catches.
\<close>

definition main_body :: "bool prog \<Rightarrow> unit prog" where
  "main_body run_setup =
     bindM run_setup (\<lambda>ok.
       if ok then say (Top SetupDone)
       else seqM (say (Top SetupFailed)) (raiseM (SystemExit 1)))"

definition main_try :: "bool prog \<Rightarrow> unit prog" where
  "main_try run_setup w =
     (case main_body run_setup w of
        (Inl e, w') \<Rightarrow>
          (if e = KeyboardInterrupt then seqM (say (Top SetupInterrupted)) (raiseM (SystemExit 130)) w'
           else if is_Exception e then seqM (say (Top (CriticalError e))) (raiseM (SystemExit 2)) w'
           else (Inl e, w'))
      | (Inr u, w') \<Rightarrow> (Inr u, w'))"

text \<open>
  The exit status of the interpreter: 0 when the program ends, the argument of
  \<^verbatim>\<open>sys.exit\<close>, and 1 for any other exception that reaches it.
\<close>

definition exit_status :: "py_exc + unit \<Rightarrow> int" where
  "exit_status r = (case r of Inr u \<Rightarrow> 0 | Inl (SystemExit n) \<Rightarrow> n | Inl e \<Rightarrow> 1)"

section \<open>Worlds and installers for the examples\<close>

text \<open>An operating system that answers every invocation alike.\<close>

definition always :: "popen_result \<Rightarrow> invocation list \<Rightarrow> invocation \<Rightarrow> popen_result" where
  "always r h i = r"

definition ok :: popen_result where
  "ok = Exited 0 ''ok'' []"

text \<open>An operating system on which the commands with a given argument fail.\<close>

definition fails_on :: "string \<Rightarrow> invocation list \<Rightarrow> invocation \<Rightarrow> popen_result" where
  "fails_on arg h i =
     (case inv_args i of
        CmdList args \<Rightarrow> if arg \<in> set args then Exited 1 [] ''error'' else Exited 0 ''ok'' []
      | _ \<Rightarrow> Exited 0 ''ok'' [])"

definition no_envs :: "string \<Rightarrow> json_envs" where
  "no_envs t = JsonEnvs []"

definition every_path :: "invocation list \<Rightarrow> string \<Rightarrow> bool" where
  "every_path h p = True"

definition no_path :: "invocation list \<Rightarrow> string \<Rightarrow> bool" where
  "no_path h p = False"

definition quiet_world :: "(invocation list \<Rightarrow> invocation \<Rightarrow> popen_result) \<Rightarrow> nat \<Rightarrow> world" where
  "quiet_world os minor =
     \<lparr>respond = os, executed = [], printed = [], stdin = [],
      fs_is_file = every_path, fs_exists = every_path, host_minor = minor,
      json_loads_envs = no_envs\<rparr>"

definition venv_setup :: bagel_setup where
  "venv_setup =
     \<lparr>env_name = ''bagel_env'', use_conda = False, system = ''linux'',
      python_executable = ''/w/bagel_env/bin/python'', original_dir = ''/w'',
      bagel_repo_dir = ''/w/BAGEL''\<rparr>"

definition msys_setup :: bagel_setup where
  "msys_setup =
     venv_setup\<lparr>system := ''windows'', python_executable := ''C:/msys64/env/Scripts/python.exe''\<rparr>"

definition conda_setup :: bagel_setup where
  "conda_setup = venv_setup\<lparr>use_conda := True, python_executable := ''/usr/bin/python3''\<rparr>"

text \<open>The command of the interpreter lookup, and an orchestrator that runs one command.\<close>

definition json_cmd :: "string list" where
  "json_cmd = [''conda'', ''env'', ''list'', ''--json'']"

definition interrupted_setup :: "bool prog" where
  "interrupted_setup =
     bindM (run_command venv_setup (CmdList [''git'', ''--version'']) True False False None)
       (\<lambda>r. retM True)"

text \<open>
  A host with conda: the listing shows the base environment only, and the registry in
  JSON holds the base environment and one of another name. \<open>parse_registry\<close> is a parser
  that reads this one text. The creation with a version in \<open>missing\<close> fails.
\<close>

definition registry_text :: string where
  "registry_text =
     ''{'' @ [dquote] @ ''envs'' @ [dquote] @ '': ['' @ [dquote] @ ''/opt/conda'' @ [dquote] @ '', ''
     @ [dquote] @ ''/opt/conda/envs/other'' @ [dquote] @ '']}''"

definition parse_registry :: "string \<Rightarrow> json_envs" where
  "parse_registry t =
     (if t = registry_text then JsonEnvs [''/opt/conda'', ''/opt/conda/envs/other'']
      else JsonDecodeError)"

definition conda_listing :: string where
  "conda_listing =
     ''# conda environments:'' @ [newline] @ ''base                     /opt/conda'' @ [newline]"

definition conda_answers :: "nat list \<Rightarrow> invocation list \<Rightarrow> invocation \<Rightarrow> popen_result" where
  "conda_answers missing h i =
     (case inv_args i of
        CmdList args \<Rightarrow>
          if args = json_cmd then Exited 0 registry_text []
          else if args = [''conda'', ''env'', ''list''] then Exited 0 conda_listing []
          else if list_ex (\<lambda>v. ''python='' @ py_ver_str v \<in> set args) missing
          then Exited 1 [] ''PackagesNotFoundError''
          else Exited 0 [] []
      | _ \<Rightarrow> Exited 0 [] [])"

definition conda_host :: "nat list \<Rightarrow> nat \<Rightarrow> world" where
  "conda_host missing minor = (quiet_world (conda_answers missing) minor)\<lparr>json_loads_envs := parse_registry\<rparr>"

section \<open>What a method prints and launches\<close>

text \<open>
  The lines printed and the invocations launched by a method started in a world. A later
  world extends an earlier one by some lines and invocations; the host stays as it is.
\<close>

definition printed_by :: "'a prog \<Rightarrow> world \<Rightarrow> msg list" where
  "printed_by m w = drop (length (printed w)) (printed (snd (m w)))"

definition launched_by :: "'a prog \<Rightarrow> world \<Rightarrow> invocation list" where
  "launched_by m w = drop (length (executed w)) (executed (snd (m w)))"

definition extends :: "world \<Rightarrow> world \<Rightarrow> msg list \<Rightarrow> invocation list \<Rightarrow> bool" where
  "extends w w' ms is =
     (printed w' = printed w @ ms \<and> executed w' = executed w @ is \<and> respond w' = respond w
      \<and> fs_is_file w' = fs_is_file w \<and> fs_exists w' = fs_exists w
      \<and> host_minor w' = host_minor w \<and> json_loads_envs w' = json_loads_envs w)"

text \<open>
  \<open>spec m Q\<close>: from every world, the method \<open>m\<close> ends with a result, lines and
  invocations that satisfy \<open>Q\<close>.
\<close>

definition spec :: "'a prog \<Rightarrow> ((py_exc + 'a) \<Rightarrow> msg list \<Rightarrow> invocation list \<Rightarrow> bool) \<Rightarrow> bool" where
  "spec m Q = (\<forall>w. \<exists>r w' ms is. m w = (r, w') \<and> extends w w' ms is \<and> Q r ms is)"

text \<open>The packages whose installation was announced, and those reported as installed.\<close>

definition attempted :: "msg list \<Rightarrow> string list" where
  "attempted ms = concat (map (\<lambda>m. case m of Pip (Installing p sh) \<Rightarrow> [p] | _ \<Rightarrow> []) ms)"

definition installed :: "msg list \<Rightarrow> string list" where
  "installed ms = concat (map (\<lambda>m. case m of Pip (Installed p) \<Rightarrow> [p] | _ \<Rightarrow> []) ms)"

text \<open>
  Classes of lines: those of \<^verbatim>\<open>run_command\<close>, and those of an installation of one
  package. The marks of a run are the lines that tell which way the pipeline went: the
  failure of the verification, the success or the failure of the bulk installation, the
  start of the fallback and the start of the helper for Gradio.
\<close>

fun from_run :: "msg \<Rightarrow> bool" where
  "from_run (Run x) = True"
| "from_run m = False"

fun from_pip :: "msg \<Rightarrow> bool" where
  "from_pip (Run x) = True"
| "from_pip (Pip x) = True"
| "from_pip m = False"

fun is_mark :: "msg \<Rightarrow> bool" where
  "is_mark (Req ReqsFailed) = True"
| "is_mark (Req ReqsProcessed) = True"
| "is_mark (Req PyTorchVerifyFailed) = True"
| "is_mark (Fb FallbackStart) = True"
| "is_mark (Gradio EnsuringGradio) = True"
| "is_mark m = False"

definition marks :: "msg list \<Rightarrow> msg list" where
  "marks ms = filter is_mark ms"

text \<open>
  The arguments that come back from the tokenizer as they went into \<open>list2cmdline\<close>.
  \<open>rt_chars quoted n cs\<close> reads the characters \<open>cs\<close> of an argument after \<open>n\<close>
  backslashes in a row. In an argument that \<open>list2cmdline\<close> puts in double quotes (one
  with a space or a tab, or the empty one) no two or more backslashes in a row stand before
  a character other than a double quote. In an argument that it leaves bare every run of
  backslashes ends at a double quote, and there is no single quote, carriage return or
  line feed.
\<close>

fun rt_chars :: "bool \<Rightarrow> nat \<Rightarrow> string \<Rightarrow> bool" where
  "rt_chars quoted n [] = (quoted \<or> n = 0)"
| "rt_chars quoted n (c # cs) =
     (if c = backslash then rt_chars quoted (Suc n) cs
      else if c = dquote then rt_chars quoted 0 cs
      else (if quoted then n \<le> 1 else n = 0 \<and> c \<noteq> squote \<and> c \<noteq> creturn \<and> c \<noteq> newline)
           \<and> rt_chars quoted 0 cs)"

definition round_trips :: "string \<Rightarrow> bool" where
  "round_trips arg = rt_chars (l2c_needquote arg) 0 arg"

text \<open>
  What the loop \<open>l2c_chars\<close> appends for the characters of an argument after \<open>n\<close>
  pending backslashes, and the number of backslashes pending at the end.
\<close>

fun l2c_body :: "nat \<Rightarrow> string \<Rightarrow> string" where
  "l2c_body n [] = []"
| "l2c_body n (c # cs) =
     (if c = backslash then l2c_body (Suc n) cs
      else if c = dquote then replicate (2 * n) backslash @ [backslash, dquote] @ l2c_body 0 cs
      else replicate n backslash @ [c] @ l2c_body 0 cs)"

fun l2c_pending :: "nat \<Rightarrow> string \<Rightarrow> nat" where
  "l2c_pending n [] = n"
| "l2c_pending n (c # cs) = (if c = backslash then l2c_pending (Suc n) cs else l2c_pending 0 cs)"

text \<open>
  The case in which the handler of \<^verbatim>\<open>FileNotFoundError\<close> in \<^verbatim>\<open>run_command\<close> finds no
  name to print: the exception carries no file name, the argument of \<^verbatim>\<open>Popen\<close> is not a
  non-empty list, and the log line is not empty but has whitespace only.
\<close>

definition no_name_to_report :: "string option \<Rightarrow> command \<Rightarrow> string \<Rightarrow> bool" where
  "no_name_to_report filename actual log =
     ((filename = None \<or> filename = Some [])
      \<and> (case actual of CmdList (a # as) \<Rightarrow> False | _ \<Rightarrow> True)
      \<and> log \<noteq> [] \<and> list_all py_isspace log)"

text \<open>
  The answers of the operating system to the invocations \<open>is\<close> launched one after the
  other after the invocations \<open>h\<close>, and the answers to the invocations of a method. An
  answer is a success when the process exits with code 0; under strict checking it is a
  failure when the process exits with another code or the launch raises an exception other
  than the operator's interrupt.
\<close>

fun answers ::
  "(invocation list \<Rightarrow> invocation \<Rightarrow> popen_result) \<Rightarrow> invocation list \<Rightarrow> invocation list
     \<Rightarrow> popen_result list" where
  "answers os h [] = []"
| "answers os h (i # is) = os h i # answers os (h @ [i]) is"

definition answers_by :: "'a prog \<Rightarrow> world \<Rightarrow> popen_result list" where
  "answers_by m w = answers (respond w) (executed w) (launched_by m w)"

fun succeeded :: "popen_result \<Rightarrow> bool" where
  "succeeded (Exited returncode out err) = (returncode = 0)"
| "succeeded a = False"

fun failure :: "popen_result \<Rightarrow> bool" where
  "failure (Exited returncode out err) = (returncode \<noteq> 0)"
| "failure (PopenFileNotFound filename m) = True"
| "failure (PopenException m) = True"
| "failure PopenInterrupt = False"

text \<open>
  \<open>run_spec m w Q\<close>: started in the world \<open>w\<close>, the method \<open>m\<close> ends with a result,
  lines, invocations and answers of the operating system to them that satisfy \<open>Q\<close>.
\<close>

definition run_spec ::
  "'a prog \<Rightarrow> world
     \<Rightarrow> ((py_exc + 'a) \<Rightarrow> msg list \<Rightarrow> invocation list \<Rightarrow> popen_result list \<Rightarrow> bool) \<Rightarrow> bool" where
  "run_spec m w Q =
     (\<exists>r w' ms is. m w = (r, w') \<and> extends w w' ms is
        \<and> Q r ms is (answers (respond w) (executed w) is))"

text \<open>
  What \<^verbatim>\<open>run_command\<close> returns under strict checking, with the output captured, for an
  answer of the operating system to a command that has a name to report; and whether the
  command succeeded.
\<close>

definition strict_result :: "popen_result \<Rightarrow> py_exc + bool \<times> string \<times> string" where
  "strict_result a =
     (case a of
        Exited returncode out err \<Rightarrow> Inr (returncode = 0, out, err)
      | PopenFileNotFound filename m \<Rightarrow> Inr (False, [], m)
      | PopenException m \<Rightarrow> Inr (False, [], m)
      | PopenInterrupt \<Rightarrow> Inl KeyboardInterrupt)"

definition strict_ok :: "popen_result \<Rightarrow> py_exc + bool" where
  "strict_ok a = (if a = PopenInterrupt then Inl KeyboardInterrupt else Inr (succeeded a))"

text \<open>
  The answers to the command of the stage Verification with which the stage fails: the
  command fails, or it prints nothing.
\<close>

definition verification_failed :: "popen_result \<Rightarrow> bool" where
  "verification_failed a =
     (case a of Exited returncode out err \<Rightarrow> returncode \<noteq> 0 \<or> out = []
      | PopenInterrupt \<Rightarrow> False
      | _ \<Rightarrow> True)"

text \<open>The command of the stage BulkRequirements and its shell flag.\<close>

definition bulk_command :: "bagel_setup \<Rightarrow> command \<times> bool" where
  "bulk_command s =
     pip_command (get_pip_executable_cmd_list s)
       ('' install -r '' @ shlex_quote (requirements_file s))
       [''install'', ''-r'', requirements_file s]"

text \<open>
  What \<^verbatim>\<open>run_command\<close> returns without strict checking, with the output captured, for
  an answer of the operating system to a command that has a name to report.
\<close>

definition probe_result :: "popen_result \<Rightarrow> py_exc + bool \<times> string \<times> string" where
  "probe_result a =
     (case a of
        Exited returncode out err \<Rightarrow> Inr (True, out, err)
      | PopenFileNotFound filename m \<Rightarrow> Inr (False, [], m)
      | PopenException m \<Rightarrow> Inr (False, [], m)
      | PopenInterrupt \<Rightarrow> Inl KeyboardInterrupt)"

text \<open>
  The invocations of \<^verbatim>\<open>create_conda_environment\<close>: the listing of the environments, the
  creation with an interpreter version, and the interpreter lookup. An answer to the
  listing shows the environment when a line of its output starts with the name.
  \<open>leading_failures\<close> counts the answers before the first that is not a failure.
\<close>

definition list_invocation :: "bagel_setup \<Rightarrow> invocation" where
  "list_invocation s = the_invocation s (CmdList [''conda'', ''env'', ''list'']) True False None"

definition create_invocation :: "bagel_setup \<Rightarrow> nat \<Rightarrow> invocation" where
  "create_invocation s py_ver = the_invocation s (CmdList (create_cmd_list s py_ver)) True False None"

definition lookup_invocation :: "bagel_setup \<Rightarrow> invocation" where
  "lookup_invocation s = the_invocation s (CmdList json_cmd) True False None"


definition leading_failures :: "popen_result list \<Rightarrow> nat" where
  "leading_failures as = length (takeWhile failure as)"

text \<open>
  The answers to the interpreter lookup that leave the interpreter unresolved, for a parser
  and a file system: the launch raised \<^verbatim>\<open>FileNotFoundError\<close> or another \<^verbatim>\<open>Exception\<close>;
  or the output is not JSON; or no environment in it has the name of the environment and
  an interpreter that exists.
\<close>

definition lookup_unresolved ::
  "bagel_setup \<Rightarrow> (string \<Rightarrow> json_envs) \<Rightarrow> (string \<Rightarrow> bool) \<Rightarrow> popen_result \<Rightarrow> bool" where
  "lookup_unresolved s parse exists a =
     (case a of
        Exited returncode out err \<Rightarrow>
          (case parse out of
             JsonDecodeError \<Rightarrow> True
           | JsonEnvs envs \<Rightarrow>
               \<not> list_ex (\<lambda>env_path. path_name s env_path = env_name s \<and> exists (env_python s env_path)) envs
           | JsonFault e \<Rightarrow> False)
      | PopenFileNotFound filename m \<Rightarrow> True
      | PopenException m \<Rightarrow> True
      | PopenInterrupt \<Rightarrow> False)"

section \<open>Properties of the Process Executor\<close>

lemmas monad_defs = retM_def raiseM_def bindM_def seqM_def say_def say_if_def popen_def

lemma run_command_launched:
  assumes "prepare_command cmd shell = Inr (Some (log, actual))"
  shows "run_command s cmd capture check shell cwd =
          seqM (say (Run (Executing log (if cwd_given cwd then Some (effective_cwd s cwd) else None))))
            (bindM (popen (the_invocation s actual capture shell cwd)) (\<lambda>r.
               case r of
                 Exited returncode out err \<Rightarrow>
                   (let stdout = (if capture then out else []);
                        stderr = (if capture then err else [])
                    in if check \<and> returncode \<noteq> 0 then
                         seqM (say (Run (CommandFailed returncode)))
                        (seqM (say_if (strip stdout \<noteq> []) (Run (FailedStdout (strip stdout))))
                        (seqM (say_if (strip stderr \<noteq> []) (Run (FailedStderr (strip stderr))))
                           (retM (False, stdout, stderr))))
                       else retM (True, stdout, stderr))
               | PopenFileNotFound filename str_e \<Rightarrow>
                   (case failed_file_reported filename actual log of
                      Inl e \<Rightarrow> raiseM e
                    | Inr f \<Rightarrow> seqM (say (Run (NotFound f))) (retM (False, [], str_e)))
               | PopenException str_e \<Rightarrow>
                   seqM (say (Run (ErrorExecuting log str_e))) (retM (False, [], str_e))
               | PopenInterrupt \<Rightarrow> raiseM KeyboardInterrupt))"
  using assms by (simp add: run_command_def)

lemma split_ws_empty: "split_ws cur cs = [] \<longleftrightarrow> cur = [] \<and> list_all py_isspace cs"
  by (induction cs arbitrary: cur) auto

lemma failed_file_reported_cases:
  "(no_name_to_report filename actual log \<longrightarrow> failed_file_reported filename actual log = Inl IndexError)
   \<and> (\<not> no_name_to_report filename actual log \<longrightarrow> (\<exists>f. failed_file_reported filename actual log = Inr f))"
  using split_ws_empty [of "[]" log]
  by (auto simp: no_name_to_report_def failed_file_reported_def py_split_def
      split: option.splits command.splits list.splits)







section \<open>Properties of the shell-string construction\<close>

lemma l2c_chars_prefix:
  "l2c_chars arg (r @ x) bs = (r @ fst (l2c_chars arg x bs), snd (l2c_chars arg x bs))"
  by (induction arg arbitrary: x bs) simp_all

lemma l2c_chars_grows:
  "length x + length bs \<le> length (fst (l2c_chars arg x bs)) + length (snd (l2c_chars arg x bs))"
proof (induction arg arbitrary: x bs)
  case Nil
  then show ?case by simp
next
  case (Cons c arg)
  show ?case
  proof (cases "c = backslash")
    case True
    with Cons [of x "bs @ [c]"] show ?thesis by simp
  next
    case False
    show ?thesis
    proof (cases "c = dquote")
      case True
      with False Cons [of "x @ replicate (length bs * 2) backslash @ [backslash, dquote]" "[]"]
      show ?thesis by simp
    next
      case nq: False
      with False Cons [of "x @ bs @ [c]" "[]"] show ?thesis by simp
    qed
  qed
qed

lemma l2c_arg_prefix:
  "l2c_arg result arg = (if result \<noteq> [] then result @ '' '' else []) @ l2c_arg [] arg"
proof -
  have "l2c_chars arg (r @ y) [] = (r @ fst (l2c_chars arg y []), snd (l2c_chars arg y []))" for r y
    by (rule l2c_chars_prefix)
  from this [of "result @ '' ''" "[dquote]"] this [of "result @ '' ''" "[]"]
  show ?thesis
    by (simp add: l2c_arg_def Let_def split: prod.split)
qed

lemma l2c_arg_nonempty: "l2c_arg [] arg \<noteq> []"
proof (cases arg)
  case Nil
  then show ?thesis by (simp add: l2c_arg_def l2c_needquote_def)
next
  case (Cons c cs)
  show ?thesis
  proof (cases "l2c_needquote arg")
    case True
    then show ?thesis by (simp add: l2c_arg_def Let_def split: prod.split)
  next
    case False
    have "1 \<le> length (fst (l2c_chars arg [] [])) + length (snd (l2c_chars arg [] []))"
    proof (cases "c = backslash")
      case True
      with l2c_chars_grows [of "[]" "[c]" cs] show ?thesis by (simp add: Cons)
    next
      case nb: False
      show ?thesis
      proof (cases "c = dquote")
        case True
        with nb l2c_chars_grows [of "[backslash, dquote]" "[]" cs] show ?thesis by (simp add: Cons)
      next
        case False
        with nb l2c_chars_grows [of "[c]" "[]" cs] show ?thesis by (simp add: Cons)
      qed
    qed
    with False show ?thesis by (auto simp: l2c_arg_def Let_def split: prod.split)
  qed
qed

lemma foldl_l2c_arg:
  "result \<noteq> [] \<Longrightarrow>
   foldl l2c_arg result args = result @ concat (map (\<lambda>a. CHR '' '' # l2c_arg [] a) args)"
proof (induction args arbitrary: result)
  case Nil
  then show ?case by simp
next
  case (Cons a args)
  have "l2c_arg result a = result @ '' '' @ l2c_arg [] a"
    using Cons.prems l2c_arg_prefix [of result a] by simp
  with Cons show ?case by simp
qed

lemma join_space: "xs \<noteq> [] \<Longrightarrow> join '' '' xs = hd xs @ concat (map (\<lambda>a. CHR '' '' # a) (tl xs))"
  by (induction "'' ''" xs rule: join.induct) simp_all

lemma list2cmdline_join: "list2cmdline args = join '' '' (map (l2c_arg []) args)"
proof (cases args)
  case Nil
  then show ?thesis by (simp add: list2cmdline_def)
next
  case (Cons a as)
  then show ?thesis
    by (simp add: list2cmdline_def foldl_l2c_arg l2c_arg_nonempty join_space map_concat comp_def
      del: join.simps)
qed

lemma l2c_arg_quotes_spaces:
  assumes "CHR '' '' \<in> set arg"
  shows "\<exists>body. l2c_arg [] arg = [dquote] @ body @ [dquote]"
proof -
  from l2c_chars_prefix [of arg "[dquote]" "[]" "[]"]
  have "l2c_chars arg [dquote] [] = ([dquote] @ fst (l2c_chars arg [] []), snd (l2c_chars arg [] []))"
    by simp
  with assms show ?thesis
    by (simp add: l2c_arg_def l2c_needquote_def Let_def)
qed

lemma l2c_chars_body:
  "l2c_chars arg result (replicate n backslash)
     = (result @ l2c_body n arg, replicate (l2c_pending n arg) backslash)"
proof (induction arg arbitrary: result n)
  case Nil
  then show ?case by simp
next
  case (Cons c cs)
  have r: "replicate n backslash @ [backslash] = replicate (Suc n) backslash"
    by (simp add: replicate_append_same)
  from Cons [of result "Suc n"] Cons [of _ 0] show ?case
    by (simp add: r mult.commute del: replicate_Suc)
qed

lemma l2c_arg_body:
  "l2c_arg [] arg =
     (if l2c_needquote arg
      then [dquote] @ l2c_body 0 arg @ replicate (2 * l2c_pending 0 arg) backslash @ [dquote]
      else l2c_body 0 arg @ replicate (l2c_pending 0 arg) backslash)"
  using l2c_chars_body [of arg "[dquote]" 0] l2c_chars_body [of arg "[]" 0]
  by (simp add: l2c_arg_def Let_def replicate_add [symmetric] mult_2)

lemma shlex_escapedstate_irrelevant:
  "st \<noteq> StEsc \<Longrightarrow> shlex_tokens st e tok q cs = shlex_tokens st e' tok q cs"
proof (induction cs arbitrary: st e e' tok q)
  case Nil
  then show ?case by simp
next
  case (Cons c cs)
  have ih: "shlex_tokens st0 e tok0 q0 cs = shlex_tokens st0 e' tok0 q0 cs"
    if "st0 \<noteq> StEsc" for st0 tok0 q0
    using that by (rule Cons.IH)
  show ?case
  proof (cases st)
    case StWs
    show ?thesis by (simp add: StWs ih)
  next
    case StWord
    show ?thesis by (simp add: StWord ih)
  next
    case (StQuote x)
    show ?thesis by (simp add: StQuote ih)
  next
    case StEsc
    with Cons.prems show ?thesis by simp
  qed
qed

lemma shlex_quoted_flag_in_quotes:
  "shlex_tokens (StQuote x) e tok q cs = shlex_tokens (StQuote x) e tok True cs"
  by (cases cs) simp_all

lemma shlex_start: "shlex_tokens StWs e [] False cs = shlex_tokens StWord e [] False cs"
  by (cases cs) (auto simp add: shlex_quotes_def shlex_whitespace_def backslash_def squote_def dquote_def tab_def creturn_def newline_def)

lemma bs_not_dq [simp]: "backslash \<noteq> dquote" "dquote \<noteq> backslash"
  by (simp_all add: backslash_def dquote_def)

lemma quote_pairs:
  "shlex_tokens (StQuote dquote) e tok q (replicate (2 * n) backslash @ rest)
     = shlex_tokens (StQuote dquote) e (tok @ replicate n backslash) True rest"
proof (induction n arbitrary: tok e q)
  case 0
  show ?case using shlex_quoted_flag_in_quotes [of dquote e tok q rest] by simp
next
  case (Suc n)
  have "shlex_tokens (StQuote dquote) e tok q (replicate (2 * Suc n) backslash @ rest)
      = shlex_tokens (StQuote dquote) (StQuote dquote) (tok @ [backslash]) True
          (replicate (2 * n) backslash @ rest)"
    by simp
  also have "\<dots> = shlex_tokens (StQuote dquote) (StQuote dquote) ((tok @ [backslash]) @ replicate n backslash) True rest"
    by (rule Suc.IH)
  also have "\<dots> = shlex_tokens (StQuote dquote) e ((tok @ [backslash]) @ replicate n backslash) True rest"
    by (rule shlex_escapedstate_irrelevant) simp
  finally show ?case by (simp add: replicate_append_same)
qed

lemma quote_escaped_quote:
  "shlex_tokens (StQuote dquote) e tok q (backslash # dquote # rest)
     = shlex_tokens (StQuote dquote) e (tok @ [dquote]) True rest"
  using shlex_escapedstate_irrelevant [of "StQuote dquote" "StQuote dquote" "tok @ [dquote]" True rest e]
  by simp

lemma quote_backslash_char:
  "c \<noteq> backslash \<Longrightarrow> c \<noteq> dquote \<Longrightarrow>
   shlex_tokens (StQuote dquote) e tok q (backslash # c # rest)
     = shlex_tokens (StQuote dquote) e (tok @ [backslash, c]) True rest"
  using shlex_escapedstate_irrelevant [of "StQuote dquote" "StQuote dquote" "tok @ [backslash, c]" True rest e]
  by simp

lemma quote_char:
  "c \<noteq> backslash \<Longrightarrow> c \<noteq> dquote \<Longrightarrow>
   shlex_tokens (StQuote dquote) e tok q (c # rest)
     = shlex_tokens (StQuote dquote) e (tok @ [c]) True rest"
  by simp

lemma quoted_round_trip:
  "rt_chars True n cs \<Longrightarrow>
   shlex_tokens (StQuote dquote) e tok q
       (l2c_body n cs @ replicate (2 * l2c_pending n cs) backslash @ dquote # rest)
     = shlex_tokens StWord e (tok @ replicate n backslash @ cs) True rest"
proof (induction cs arbitrary: n tok q)
  case Nil
  from quote_pairs [of e tok q n "dquote # rest"] show ?case by simp
next
  case (Cons c cs)
  show ?case
  proof (cases "c = backslash")
    case True
    with Cons.prems have "rt_chars True (Suc n) cs" by simp
    from Cons.IH [OF this, of tok q] True show ?thesis
      by (simp add: replicate_append_same del: replicate_Suc) (simp add: replicate_app_Cons_same)
  next
    case nb: False
    show ?thesis
    proof (cases "c = dquote")
      case True
      with Cons.prems nb have r: "rt_chars True 0 cs" by simp
      have "shlex_tokens (StQuote dquote) e tok q
              (l2c_body n (c # cs) @ replicate (2 * l2c_pending n (c # cs)) backslash @ dquote # rest)
          = shlex_tokens (StQuote dquote) e tok q
              (replicate (2 * n) backslash @ backslash # dquote #
                 (l2c_body 0 cs @ replicate (2 * l2c_pending 0 cs) backslash @ dquote # rest))"
        using True nb by simp
      also have "\<dots> = shlex_tokens (StQuote dquote) e (tok @ replicate n backslash) True
              (backslash # dquote #
                 (l2c_body 0 cs @ replicate (2 * l2c_pending 0 cs) backslash @ dquote # rest))"
        by (rule quote_pairs)
      also have "\<dots> = shlex_tokens (StQuote dquote) e ((tok @ replicate n backslash) @ [dquote]) True
              (l2c_body 0 cs @ replicate (2 * l2c_pending 0 cs) backslash @ dquote # rest)"
        by (rule quote_escaped_quote)
      also have "\<dots> = shlex_tokens StWord e (((tok @ replicate n backslash) @ [dquote]) @ replicate 0 backslash @ cs) True rest"
        by (rule Cons.IH [OF r])
      finally show ?thesis using True by simp
    next
      case nq: False
      with Cons.prems nb have n: "n \<le> 1" and r: "rt_chars True 0 cs" by simp_all
      have step: "shlex_tokens (StQuote dquote) e tok q (replicate n backslash @ c # more)
          = shlex_tokens (StQuote dquote) e (tok @ replicate n backslash @ [c]) True more" for more
      proof (cases "n = 0")
        case True
        then show ?thesis using quote_char [OF nb nq, of e tok q more] by simp
      next
        case False
        with n have "n = 1" by simp
        then show ?thesis using quote_backslash_char [OF nb nq, of e tok q more] by simp
      qed
      have "shlex_tokens (StQuote dquote) e tok q
              (l2c_body n (c # cs) @ replicate (2 * l2c_pending n (c # cs)) backslash @ dquote # rest)
          = shlex_tokens (StQuote dquote) e tok q
              (replicate n backslash @ c #
                 (l2c_body 0 cs @ replicate (2 * l2c_pending 0 cs) backslash @ dquote # rest))"
        using nb nq by simp
      also have "\<dots> = shlex_tokens (StQuote dquote) e (tok @ replicate n backslash @ [c]) True
              (l2c_body 0 cs @ replicate (2 * l2c_pending 0 cs) backslash @ dquote # rest)"
        by (rule step)
      also have "\<dots> = shlex_tokens StWord e ((tok @ replicate n backslash @ [c]) @ replicate 0 backslash @ cs) True rest"
        by (rule Cons.IH [OF r])
      finally show ?thesis by simp
    qed
  qed
qed


lemma word_pairs:
  "shlex_tokens StWord e tok q (replicate (2 * n) backslash @ rest)
     = shlex_tokens StWord e (tok @ replicate n backslash) q rest"
proof (induction n arbitrary: tok e)
  case 0
  show ?case by simp
next
  case (Suc n)
  have w: "\<not> shlex_whitespace backslash" "\<not> shlex_quotes backslash"
    by (simp_all add: shlex_whitespace_def shlex_quotes_def backslash_def tab_def creturn_def
        newline_def squote_def dquote_def)
  have "shlex_tokens StWord e tok q (replicate (2 * Suc n) backslash @ rest)
      = shlex_tokens StWord StWord (tok @ [backslash]) q (replicate (2 * n) backslash @ rest)"
    by (simp add: w)
  also have "\<dots> = shlex_tokens StWord StWord ((tok @ [backslash]) @ replicate n backslash) q rest"
    by (rule Suc.IH)
  also have "\<dots> = shlex_tokens StWord e ((tok @ [backslash]) @ replicate n backslash) q rest"
    by (rule shlex_escapedstate_irrelevant) simp
  finally show ?case by (simp add: replicate_append_same)
qed

lemma word_escaped_quote:
  "shlex_tokens StWord e tok q (backslash # dquote # rest)
     = shlex_tokens StWord e (tok @ [dquote]) q rest"
proof -
  have w: "\<not> shlex_whitespace backslash" "\<not> shlex_quotes backslash"
    by (simp_all add: shlex_whitespace_def shlex_quotes_def backslash_def tab_def creturn_def
        newline_def squote_def dquote_def)
  from shlex_escapedstate_irrelevant [of StWord StWord "tok @ [dquote]" q rest e] show ?thesis
    by (simp add: w)
qed

lemma word_char:
  "c \<noteq> backslash \<Longrightarrow> c \<noteq> dquote \<Longrightarrow> c \<noteq> squote \<Longrightarrow> c \<noteq> creturn \<Longrightarrow> c \<noteq> newline \<Longrightarrow>
   c \<noteq> CHR '' '' \<Longrightarrow> c \<noteq> tab \<Longrightarrow>
   shlex_tokens StWord e tok q (c # rest) = shlex_tokens StWord e (tok @ [c]) q rest"
  by (simp add: shlex_whitespace_def shlex_quotes_def)

lemma bare_round_trip:
  "rt_chars False n cs \<Longrightarrow> CHR '' '' \<notin> set cs \<Longrightarrow> tab \<notin> set cs \<Longrightarrow>
   shlex_tokens StWord e tok q (l2c_body n cs @ replicate (l2c_pending n cs) backslash @ rest)
     = shlex_tokens StWord e (tok @ replicate n backslash @ cs) q rest"
proof (induction cs arbitrary: n tok)
  case Nil
  then show ?case by simp
next
  case (Cons c cs)
  show ?case
  proof (cases "c = backslash")
    case True
    with Cons.prems have "rt_chars False (Suc n) cs" by simp
    from Cons.IH [OF this, of tok] Cons.prems True show ?thesis
      by (simp add: replicate_append_same del: replicate_Suc) (simp add: replicate_app_Cons_same)
  next
    case nb: False
    show ?thesis
    proof (cases "c = dquote")
      case True
      with Cons.prems nb have r: "rt_chars False 0 cs" by simp
      have "shlex_tokens StWord e tok q
              (l2c_body n (c # cs) @ replicate (l2c_pending n (c # cs)) backslash @ rest)
          = shlex_tokens StWord e tok q
              (replicate (2 * n) backslash @ backslash # dquote #
                 (l2c_body 0 cs @ replicate (l2c_pending 0 cs) backslash @ rest))"
        using True nb by simp
      also have "\<dots> = shlex_tokens StWord e (tok @ replicate n backslash) q
              (backslash # dquote # (l2c_body 0 cs @ replicate (l2c_pending 0 cs) backslash @ rest))"
        by (rule word_pairs)
      also have "\<dots> = shlex_tokens StWord e ((tok @ replicate n backslash) @ [dquote]) q
              (l2c_body 0 cs @ replicate (l2c_pending 0 cs) backslash @ rest)"
        by (rule word_escaped_quote)
      also have "\<dots> = shlex_tokens StWord e (((tok @ replicate n backslash) @ [dquote]) @ replicate 0 backslash @ cs) q rest"
        using Cons.prems by (intro Cons.IH [OF r]) simp_all
      finally show ?thesis using True by simp
    next
      case nq: False
      with Cons.prems nb have n: "n = 0" and r: "rt_chars False 0 cs"
        and c: "c \<noteq> squote" "c \<noteq> creturn" "c \<noteq> newline" "c \<noteq> CHR '' ''" "c \<noteq> tab"
        by auto
      have "shlex_tokens StWord e tok q
              (l2c_body n (c # cs) @ replicate (l2c_pending n (c # cs)) backslash @ rest)
          = shlex_tokens StWord e tok q
              (c # (l2c_body 0 cs @ replicate (l2c_pending 0 cs) backslash @ rest))"
        using nb nq n by simp
      also have "\<dots> = shlex_tokens StWord e (tok @ [c]) q
              (l2c_body 0 cs @ replicate (l2c_pending 0 cs) backslash @ rest)"
        using nb nq c by (rule word_char)
      also have "\<dots> = shlex_tokens StWord e ((tok @ [c]) @ replicate 0 backslash @ cs) q rest"
        using Cons.prems by (intro Cons.IH [OF r]) simp_all
      finally show ?thesis using n by simp
    qed
  qed
qed

lemma shlex_l2c_arg:
  assumes "round_trips a"
  shows "shlex_tokens StWs e [] False (l2c_arg [] a @ rest)
           = shlex_tokens StWord e a (l2c_needquote a) rest"
proof (cases "l2c_needquote a")
  case True
  with assms have r: "rt_chars True 0 a" by (simp add: round_trips_def)
  have d: "\<not> shlex_whitespace dquote" "shlex_quotes dquote"
    by (simp_all add: shlex_whitespace_def shlex_quotes_def dquote_def tab_def creturn_def newline_def)
  from quoted_round_trip [OF r, of e "[]" False rest] True show ?thesis
    by (simp add: l2c_arg_body d)
next
  case False
  with assms have r: "rt_chars False 0 a" by (simp add: round_trips_def)
  from False have s: "CHR '' '' \<notin> set a" "tab \<notin> set a" by (simp_all add: l2c_needquote_def)
  from bare_round_trip [OF r s, of e "[]" False rest] False show ?thesis
    by (simp add: l2c_arg_body shlex_start)
qed

lemma shlex_joined_args:
  "list_all round_trips args \<Longrightarrow>
   shlex_tokens StWs e [] False (join '' '' (map (l2c_arg []) args)) = Inr args"
proof (induction args arbitrary: e)
  case Nil
  show ?case by simp
next
  case (Cons a args)
  note ra = Cons.prems [simplified, THEN conjunct1]
  have nq: "a \<noteq> [] \<or> l2c_needquote a" by (auto simp: l2c_needquote_def)
  show ?case
  proof (cases args)
    case Nil
    from shlex_l2c_arg [OF ra, of e "[]"] nq show ?thesis by (auto simp: Nil)
  next
    case (Cons b bs)
    have "shlex_tokens StWs StWs [] False (join '' '' (map (l2c_arg []) args)) = Inr args"
      using Cons.prems by (intro Cons.IH) simp
    with shlex_l2c_arg [OF ra, of e "CHR '' '' # join '' '' (map (l2c_arg []) args)"] nq
    show ?thesis
      by (auto simp: Cons shlex_whitespace_def emit_token_def)
  qed
qed

lemma shlex_split_list2cmdline:
  "list_all round_trips args \<Longrightarrow> shlex_split (list2cmdline args) = Inr args"
  by (simp add: shlex_split_def list2cmdline_join shlex_joined_args)


text \<open>
  C4, as the code has it. An argument list run through the shell is joined by
  \<open>list2cmdline\<close>: the pieces of the arguments separated by single spaces, the piece of an
  argument with a space in double quotes. Handing the string back to \<^verbatim>\<open>run_command\<close>
  without the shell tokenizes it into the original arguments when every argument is in the
  class \<open>round_trips\<close>: in an argument with a space or a tab, and in the empty argument,
  no two or more backslashes in a row stand before a character other than a double quote;
  in any other argument every run of backslashes ends at a double quote, and there is no
  single quote, carriage return or line feed.
\<close>

theorem shell_string_quotes_and_round_trip:
  "prepare_command (CmdList args) True = Inr (Some (list2cmdline args, CmdStr (list2cmdline args)))
   \<and> list2cmdline args = join '' '' (map (l2c_arg []) args)
   \<and> (\<forall>arg\<in>set args. CHR '' '' \<in> set arg \<longrightarrow> (\<exists>body. l2c_arg [] arg = [dquote] @ body @ [dquote]))
   \<and> (list_all round_trips args \<longrightarrow>
        prepare_command (CmdStr (list2cmdline args)) False
          = Inr (Some (list2cmdline args, CmdList args)))"
proof (intro conjI ballI impI)
  show "prepare_command (CmdList args) True
          = Inr (Some (list2cmdline args, CmdStr (list2cmdline args)))"
    by (simp add: prepare_command_def)
  show "list2cmdline args = join '' '' (map (l2c_arg []) args)"
    by (rule list2cmdline_join)
  show "\<exists>body. l2c_arg [] arg = [dquote] @ body @ [dquote]" if "CHR '' '' \<in> set arg" for arg
    using that by (rule l2c_arg_quotes_spaces)
  show "prepare_command (CmdStr (list2cmdline args)) False
          = Inr (Some (list2cmdline args, CmdList args))" if "list_all round_trips args"
    using that by (simp add: prepare_command_def shlex_split_list2cmdline)
qed

lemma example_arguments_round_trip:
  "list_all round_trips
     [''conda'', ''run'', ''-n'', ''my env'', [CHR ''a'', dquote, CHR ''b''], [CHR ''c'', tab, CHR ''d''],
      ''it'' @ [squote] @ ''s me'', ''a b'' @ [backslash] @ ''c'', []]"
  by (simp add: round_trips_def l2c_needquote_def backslash_def dquote_def squote_def tab_def
      creturn_def newline_def)

theorem shell_string_quotes_and_round_trip_witness:
  "list_all round_trips
     [''conda'', ''run'', ''-n'', ''my env'', [CHR ''a'', dquote, CHR ''b''], [CHR ''c'', tab, CHR ''d''],
      ''it'' @ [squote] @ ''s me'', ''a b'' @ [backslash] @ ''c'', []]
   \<and> CHR '' '' \<in> set ''my env''
   \<and> (\<exists>body. l2c_arg [] ''my env'' = [dquote] @ body @ [dquote])
   \<and> prepare_command
       (CmdStr (list2cmdline
          [''conda'', ''run'', ''-n'', ''my env'', [CHR ''a'', dquote, CHR ''b''], [CHR ''c'', tab, CHR ''d''],
           ''it'' @ [squote] @ ''s me'', ''a b'' @ [backslash] @ ''c'', []])) False
       = Inr (Some (list2cmdline
          [''conda'', ''run'', ''-n'', ''my env'', [CHR ''a'', dquote, CHR ''b''], [CHR ''c'', tab, CHR ''d''],
           ''it'' @ [squote] @ ''s me'', ''a b'' @ [backslash] @ ''c'', []],
                    CmdList
          [''conda'', ''run'', ''-n'', ''my env'', [CHR ''a'', dquote, CHR ''b''], [CHR ''c'', tab, CHR ''d''],
           ''it'' @ [squote] @ ''s me'', ''a b'' @ [backslash] @ ''c'', []]))"
proof -
  let ?args = "[''conda'', ''run'', ''-n'', ''my env'', [CHR ''a'', dquote, CHR ''b''],
      [CHR ''c'', tab, CHR ''d''], ''it'' @ [squote] @ ''s me'', ''a b'' @ [backslash] @ ''c'', []]"
  note p = example_arguments_round_trip
  note t = shell_string_quotes_and_round_trip [of ?args]
  from t have "\<forall>arg\<in>set ?args.
      CHR '' '' \<in> set arg \<longrightarrow> (\<exists>body. l2c_arg [] arg = [dquote] @ body @ [dquote])"
    by blast
  then have a: "\<exists>body. l2c_arg [] ''my env'' = [dquote] @ body @ [dquote]"
    by simp
  from t p have r: "prepare_command (CmdStr (list2cmdline ?args)) False
       = Inr (Some (list2cmdline ?args, CmdList ?args))"
    by blast
  have "CHR '' '' \<in> set ''my env''" by simp
  with p a r show ?thesis by blast
qed


text \<open>
  C4 as stated fails: a backslash outside quotes is an escape for the tokenizer, so the
  second argument comes back without it.
\<close>

theorem shell_string_round_trip_counterexample:
  "CHR '' '' \<in> set ''my env''
   \<and> shlex_split (list2cmdline [''my env'', [CHR ''C'', CHR '':'', backslash, CHR ''e'', CHR ''n'', CHR ''v'']])
       = Inr [''my env'', ''C:env'']
   \<and> [''my env'', ''C:env''] \<noteq> [''my env'', [CHR ''C'', CHR '':'', backslash, CHR ''e'', CHR ''n'', CHR ''v'']]"
  by (simp add: shlex_split_def list2cmdline_def l2c_arg_def l2c_needquote_def backslash_def
      dquote_def squote_def tab_def shlex_whitespace_def shlex_quotes_def emit_token_def
      creturn_def newline_def)

section \<open>Rules for specifications\<close>

lemma extends_refl: "extends w w [] []"
  by (simp add: extends_def)

lemma extends_trans:
  "extends w w1 ms is \<Longrightarrow> extends w1 w2 ms' is' \<Longrightarrow> extends w w2 (ms @ ms') (is @ is')"
  by (simp add: extends_def)

lemma specD:
  assumes "spec m Q"
  shows "Q (fst (m w)) (printed_by m w) (launched_by m w)"
proof -
  from assms obtain r w' ms "is" where "m w = (r, w')" "extends w w' ms is" "Q r ms is"
    unfolding spec_def by blast
  then show ?thesis
    by (simp add: printed_by_def launched_by_def extends_def)
qed

lemma spec_weaken:
  "spec m P \<Longrightarrow> (\<And>r ms is. P r ms is \<Longrightarrow> Q r ms is) \<Longrightarrow> spec m Q"
  unfolding spec_def by blast

lemma spec_retM: "Q (Inr x) [] [] \<Longrightarrow> spec (retM x) Q"
  unfolding spec_def retM_def using extends_refl by blast

lemma spec_raiseM: "Q (Inl e) [] [] \<Longrightarrow> spec (raiseM e) Q"
  unfolding spec_def raiseM_def using extends_refl by blast

lemma spec_say: "Q (Inr ()) [m] [] \<Longrightarrow> spec (say m) Q"
  unfolding spec_def say_def by (auto simp: extends_def)

lemma spec_popen: "(\<And>r. Q (Inr r) [] [i]) \<Longrightarrow> spec (popen i) Q"
  unfolding spec_def popen_def by (auto simp: extends_def)

lemma spec_is_file: "(\<And>b. Q (Inr b) [] []) \<Longrightarrow> spec (is_file p) Q"
  unfolding spec_def is_file_def using extends_refl by blast

lemma spec_path_exists: "(\<And>b. Q (Inr b) [] []) \<Longrightarrow> spec (path_exists p) Q"
  unfolding spec_def path_exists_def using extends_refl by blast

lemma spec_get_host_minor: "(\<And>n. Q (Inr n) [] []) \<Longrightarrow> spec get_host_minor Q"
  unfolding spec_def get_host_minor_def using extends_refl by blast

lemma spec_json_envs_of: "(\<And>j. Q (Inr j) [] []) \<Longrightarrow> spec (json_envs_of t) Q"
  unfolding spec_def json_envs_of_def using extends_refl by blast

lemma spec_read_input: "(\<And>r. Q r [] []) \<Longrightarrow> spec read_input Q"
  unfolding spec_def read_input_def by (auto simp: extends_def split: list.splits)

lemma spec_bindM_wp:
  assumes "spec m (\<lambda>r ms is. case r of
              Inl e \<Rightarrow> Q (Inl e) ms is
            | Inr x \<Rightarrow> spec (f x) (\<lambda>r' ms' is'. Q r' (ms @ ms') (is @ is')))"
  shows "spec (bindM m f) Q"
  unfolding spec_def
proof
  fix w
  from assms obtain r w1 ms "is" where 1: "m w = (r, w1)" "extends w w1 ms is"
    and 2: "case r of Inl e \<Rightarrow> Q (Inl e) ms is
            | Inr x \<Rightarrow> spec (f x) (\<lambda>r' ms' is'. Q r' (ms @ ms') (is @ is'))"
    unfolding spec_def by blast
  show "\<exists>r w' ms is. bindM m f w = (r, w') \<and> extends w w' ms is \<and> Q r ms is"
  proof (cases r)
    case (Inl e)
    with 1 have "bindM m f w = (Inl e, w1)" by (simp add: bindM_def)
    moreover from 2 Inl have "Q (Inl e) ms is" by simp
    ultimately show ?thesis using 1 by blast
  next
    case (Inr x)
    with 2 have "spec (f x) (\<lambda>r' ms' is'. Q r' (ms @ ms') (is @ is'))" by simp
    then obtain r2 w2 ms2 is2 where 3: "f x w1 = (r2, w2)" "extends w1 w2 ms2 is2" "Q r2 (ms @ ms2) (is @ is2)"
      unfolding spec_def by blast
    from 1 3 Inr have "bindM m f w = (r2, w2)" by (simp add: bindM_def)
    moreover from 1 3 have "extends w w2 (ms @ ms2) (is @ is2)" by (blast intro: extends_trans)
    ultimately show ?thesis using 3 by blast
  qed
qed

lemma spec_seqM_wp:
  assumes "spec m (\<lambda>r ms is. case r of
              Inl e \<Rightarrow> Q (Inl e) ms is
            | Inr x \<Rightarrow> spec n (\<lambda>r' ms' is'. Q r' (ms @ ms') (is @ is')))"
  shows "spec (seqM m n) Q"
  unfolding seqM_def using assms by (rule spec_bindM_wp)

lemma bindM_retM [simp]: "bindM (retM x) f = f x"
  by (rule ext) (simp add: bindM_def retM_def)

lemma seqM_retM [simp]: "seqM (retM ()) n = n"
  by (simp add: seqM_def)

lemma bindM_raiseM [simp]: "bindM (raiseM e) f = raiseM e"
  by (rule ext) (simp add: bindM_def raiseM_def)

lemmas spec_wp = spec_bindM_wp spec_seqM_wp spec_retM spec_raiseM spec_say spec_popen spec_is_file
  spec_path_exists spec_get_host_minor spec_json_envs_of spec_read_input

section \<open>Rules for runs with the answers of the operating system\<close>

lemma answers_append:
  "answers os h (is @ js) = answers os h is @ answers os (h @ is) js"
  by (induction "is" arbitrary: h) simp_all

lemma length_answers [simp]: "length (answers os h is) = length is"
  by (induction "is" arbitrary: h) simp_all

lemma run_specD:
  assumes "run_spec m w Q"
  shows "Q (fst (m w)) (printed_by m w) (launched_by m w) (answers_by m w)"
proof -
  from assms obtain r w' ms "is" where "m w = (r, w')" "extends w w' ms is"
    "Q r ms is (answers (respond w) (executed w) is)"
    unfolding run_spec_def by blast
  then show ?thesis
    by (simp add: printed_by_def launched_by_def answers_by_def extends_def)
qed

lemma run_spec_weaken:
  "run_spec m w P \<Longrightarrow> (\<And>r ms is as. length as = length is \<Longrightarrow> P r ms is as \<Longrightarrow> Q r ms is as)
   \<Longrightarrow> run_spec m w Q"
  unfolding run_spec_def by (metis length_answers)

lemma run_spec_of_spec: "spec m Q \<Longrightarrow> run_spec m w (\<lambda>r ms is as. Q r ms is)"
  unfolding spec_def run_spec_def by blast

lemma run_spec_conj:
  "run_spec m w P \<Longrightarrow> run_spec m w Q \<Longrightarrow> run_spec m w (\<lambda>r ms is as. P r ms is as \<and> Q r ms is as)"
  unfolding run_spec_def extends_def by (elim exE conjE) auto

lemma run_spec_retM: "Q (Inr x) [] [] [] \<Longrightarrow> run_spec (retM x) w Q"
  unfolding run_spec_def retM_def using extends_refl [of w] by force

lemma run_spec_raiseM: "Q (Inl e) [] [] [] \<Longrightarrow> run_spec (raiseM e) w Q"
  unfolding run_spec_def raiseM_def using extends_refl [of w] by force

lemma run_spec_say: "Q (Inr ()) [m] [] [] \<Longrightarrow> run_spec (say m) w Q"
  unfolding run_spec_def say_def by (force simp: extends_def)

lemma run_spec_popen:
  "Q (Inr (respond w (executed w) i)) [] [i] [respond w (executed w) i] \<Longrightarrow> run_spec (popen i) w Q"
  unfolding run_spec_def popen_def by (force simp: extends_def)

lemma run_spec_is_file: "Q (Inr (fs_is_file w (executed w) p)) [] [] [] \<Longrightarrow> run_spec (is_file p) w Q"
  unfolding run_spec_def is_file_def using extends_refl [of w] by force

lemma run_spec_path_exists:
  "Q (Inr (fs_exists w (executed w) p)) [] [] [] \<Longrightarrow> run_spec (path_exists p) w Q"
  unfolding run_spec_def path_exists_def using extends_refl [of w] by force

lemma run_spec_get_host_minor: "Q (Inr (host_minor w)) [] [] [] \<Longrightarrow> run_spec get_host_minor w Q"
  unfolding run_spec_def get_host_minor_def using extends_refl [of w] by force

lemma run_spec_json_envs_of:
  "Q (Inr (json_loads_envs w t)) [] [] [] \<Longrightarrow> run_spec (json_envs_of t) w Q"
  unfolding run_spec_def json_envs_of_def using extends_refl [of w] by force

lemma run_spec_read_input: "(\<And>r. Q r [] [] []) \<Longrightarrow> run_spec read_input w Q"
  unfolding run_spec_def read_input_def by (force simp: extends_def split: list.splits)

lemma run_spec_bindM:
  assumes "run_spec m w (\<lambda>r ms is as. case r of
              Inl e \<Rightarrow> Q (Inl e) ms is as
            | Inr x \<Rightarrow> (\<forall>w1. extends w w1 ms is \<longrightarrow>
                 run_spec (f x) w1 (\<lambda>r' ms' is' as'. Q r' (ms @ ms') (is @ is') (as @ as'))))"
  shows "run_spec (bindM m f) w Q"
proof -
  from assms obtain r w1 ms "is" where 1: "m w = (r, w1)" "extends w w1 ms is"
    and 2: "case r of Inl e \<Rightarrow> Q (Inl e) ms is (answers (respond w) (executed w) is)
            | Inr x \<Rightarrow> (\<forall>w1. extends w w1 ms is \<longrightarrow>
                 run_spec (f x) w1 (\<lambda>r' ms' is' as'. Q r' (ms @ ms') (is @ is')
                    (answers (respond w) (executed w) is @ as')))"
    unfolding run_spec_def by blast
  show ?thesis
  proof (cases r)
    case (Inl e)
    with 1 have "bindM m f w = (Inl e, w1)" by (simp add: bindM_def)
    moreover from 2 Inl have "Q (Inl e) ms is (answers (respond w) (executed w) is)" by simp
    ultimately show ?thesis unfolding run_spec_def using 1 by blast
  next
    case (Inr x)
    with 1 2 have "run_spec (f x) w1 (\<lambda>r' ms' is' as'. Q r' (ms @ ms') (is @ is')
                    (answers (respond w) (executed w) is @ as'))" by simp
    then obtain r2 w2 ms2 is2 where 3: "f x w1 = (r2, w2)" "extends w1 w2 ms2 is2"
      "Q r2 (ms @ ms2) (is @ is2)
         (answers (respond w) (executed w) is @ answers (respond w1) (executed w1) is2)"
      unfolding run_spec_def by blast
    from 1 have "respond w1 = respond w" "executed w1 = executed w @ is" by (simp_all add: extends_def)
    with 3 have 4: "Q r2 (ms @ ms2) (is @ is2) (answers (respond w) (executed w) (is @ is2))"
      by (simp add: answers_append)
    from 1 3 Inr have "bindM m f w = (r2, w2)" by (simp add: bindM_def)
    moreover from 1 3 have "extends w w2 (ms @ ms2) (is @ is2)" by (blast intro: extends_trans)
    ultimately show ?thesis unfolding run_spec_def using 4 by blast
  qed
qed

lemma run_spec_seqM:
  assumes "run_spec m w (\<lambda>r ms is as. case r of
              Inl e \<Rightarrow> Q (Inl e) ms is as
            | Inr x \<Rightarrow> (\<forall>w1. extends w w1 ms is \<longrightarrow>
                 run_spec n w1 (\<lambda>r' ms' is' as'. Q r' (ms @ ms') (is @ is') (as @ as'))))"
  shows "run_spec (seqM m n) w Q"
  unfolding seqM_def using assms by (rule run_spec_bindM)

lemmas run_spec_rules = run_spec_bindM run_spec_seqM run_spec_retM run_spec_raiseM run_spec_say
  run_spec_popen run_spec_is_file run_spec_path_exists run_spec_get_host_minor run_spec_json_envs_of
  run_spec_read_input


section \<open>Lines by class\<close>

lemma attempted_append [simp]: "attempted (a @ b) = attempted a @ attempted b"
  by (simp add: attempted_def)

lemma installed_append [simp]: "installed (a @ b) = installed a @ installed b"
  by (simp add: installed_def)

lemma attempted_simps [simp]:
  "attempted [] = []"
  "attempted (Pip (Installing p sh) # ms) = p # attempted ms"
  "attempted (Pip (Installed p) # ms) = attempted ms"
  "attempted (Pip (InstallFailed p) # ms) = attempted ms"
  "attempted (Pip FlashAttnNeedsBuildTools # ms) = attempted ms"
  "attempted (Pip TorchMissing # ms) = attempted ms"
  "attempted (Run x # ms) = attempted ms"
  "attempted (Env e # ms) = attempted ms"
  "attempted (Req q # ms) = attempted ms"
  "attempted (Fb f # ms) = attempted ms"
  "attempted (Gradio g # ms) = attempted ms"
  "attempted (Top t # ms) = attempted ms"
  by (simp_all add: attempted_def)

lemma installed_simps [simp]:
  "installed [] = []"
  "installed (Pip (Installed p) # ms) = p # installed ms"
  "installed (Pip (Installing p sh) # ms) = installed ms"
  "installed (Pip (InstallFailed p) # ms) = installed ms"
  "installed (Pip FlashAttnNeedsBuildTools # ms) = installed ms"
  "installed (Pip TorchMissing # ms) = installed ms"
  "installed (Run x # ms) = installed ms"
  "installed (Env e # ms) = installed ms"
  "installed (Req q # ms) = installed ms"
  "installed (Fb f # ms) = installed ms"
  "installed (Gradio g # ms) = installed ms"
  "installed (Top t # ms) = installed ms"
  by (simp_all add: installed_def)

lemma from_run_no_pip: "list_all from_run ms \<Longrightarrow> attempted ms = [] \<and> installed ms = []"
proof (induction ms)
  case Nil
  then show ?case by simp
next
  case (Cons m ms)
  then show ?case by (cases m) simp_all
qed

lemma from_run_from_pip: "list_all from_run ms \<Longrightarrow> list_all from_pip ms"
proof (induction ms)
  case Nil
  then show ?case by simp
next
  case (Cons m ms)
  then show ?case by (cases m) simp_all
qed

section \<open>Specifications of the executor and the installer\<close>

lemma prepare_pip_install_command:
  "\<exists>log. prepare_command (fst (pip_install_command s pkg extra)) (snd (pip_install_command s pkg extra))
     = Inr (Some (log, fst (pip_install_command s pkg extra)))"
  by (auto simp: get_pip_executable_cmd_list_def pip_install_command_def prepare_command_def Let_def
      split: command.splits)

lemma spec_run_command:
  "spec (run_command s cmd capture check shell cwd)
     (\<lambda>r ms is. list_all from_run ms
        \<and> is = (case prepare_command cmd shell of
                   Inr (Some (log, actual)) \<Rightarrow> [the_invocation s actual capture shell cwd]
                 | _ \<Rightarrow> []))"
  unfolding run_command_def
  by ((intro spec_wp allI impI conjI
       | simp add: say_if_def Let_def split: popen_result.split sum.split option.split prod.split)+)

lemma spec_install_package_with_pip:
  "spec (install_package_with_pip s pkg cwd extra)
     (\<lambda>r ms is. list_all from_pip ms \<and> attempted ms = [pkg]
        \<and> installed ms = (if r = Inr True then [pkg] else [])
        \<and> map inv_args is = [fst (pip_install_command s pkg extra)]
        \<and> map inv_shell is = [snd (pip_install_command s pkg extra)])"
proof -
  obtain final use_shell where pc: "pip_install_command s pkg extra = (final, use_shell)"
    by (cases "pip_install_command s pkg extra")
  from prepare_pip_install_command [of s pkg extra] pc
  obtain log where prep: "prepare_command final use_shell = Inr (Some (log, final))" by auto
  have run: "spec (run_command s final True True use_shell d)
     (\<lambda>r ms is. list_all from_pip ms \<and> attempted ms = [] \<and> installed ms = []
        \<and> map inv_args is = [final] \<and> map inv_shell is = [use_shell])" for d
    by (rule spec_weaken [OF spec_run_command])
       (simp add: prep from_run_no_pip from_run_from_pip the_invocation_def)
  show ?thesis
    unfolding install_package_with_pip_def pc
    by ((intro spec_wp spec_weaken [OF run] allI impI conjI
         | simp add: say_if_def Let_def split: sum.split prod.split)+)
qed


section \<open>Specifications of the stages\<close>

lemma marks_simps [simp]:
  "marks [] = []"
  "marks (m # ms) = (if is_mark m then m # marks ms else marks ms)"
  "marks (a @ b) = marks a @ marks b"
  by (simp_all add: marks_def)

lemma mark_in_marks: "is_mark m \<Longrightarrow> m \<in> set (marks ms) \<longleftrightarrow> m \<in> set ms"
  by (auto simp: marks_def)

lemma from_pip_no_marks: "list_all from_pip ms \<Longrightarrow> marks ms = []"
proof (induction ms)
  case Nil
  then show ?case by simp
next
  case (Cons m ms)
  then show ?case by (cases m) simp_all
qed

lemma spec_run_command_stage:
  "spec (run_command s cmd capture check shell cwd)
     (\<lambda>r ms is. marks ms = [] \<and> attempted ms = [] \<and> installed ms = [])"
  by (rule spec_weaken [OF spec_run_command])
     (simp add: from_run_from_pip from_pip_no_marks from_run_no_pip)

lemma spec_install_stage:
  "spec (install_package_with_pip s pkg cwd extra)
     (\<lambda>r ms is. marks ms = [] \<and> attempted ms = [pkg]
        \<and> installed ms = (if r = Inr True then [pkg] else [])
        \<and> map inv_args is = [fst (pip_install_command s pkg extra)]
        \<and> map inv_shell is = [snd (pip_install_command s pkg extra)])"
  by (rule spec_weaken [OF spec_install_package_with_pip]) (simp add: from_pip_no_marks)

lemma spec_upgrade_loop:
  "spec (upgrade_loop s base pkgs b) (\<lambda>r ms is. marks ms = [])"
proof (induction pkgs arbitrary: b)
  case Nil
  then show ?case by (simp add: spec_retM)
next
  case (Cons pkg pkgs)
  show ?case
    by ((intro spec_wp spec_weaken [OF spec_run_command_stage] spec_weaken [OF Cons.IH] allI impI conjI
         | simp add: say_if_def Let_def split: sum.split prod.split)+)
qed

lemma spec_upgrade_tooling: "spec (upgrade_tooling s) (\<lambda>r ms is. marks ms = [])"
  unfolding upgrade_tooling_def
  by ((intro spec_wp spec_weaken [OF spec_upgrade_loop] allI impI conjI
       | simp add: say_if_def Let_def del: upgrade_loop.simps split: sum.split prod.split)+)

lemma spec_install_until_failure:
  "spec (install_until_failure s specs) (\<lambda>r ms is. marks ms = [])"
proof (induction specs)
  case Nil
  then show ?case by (simp add: spec_retM)
next
  case (Cons sp specs)
  show ?case
    by ((intro spec_wp spec_weaken [OF spec_install_stage] spec_weaken [OF Cons.IH] allI impI conjI
         | simp add: say_if_def Let_def split: sum.split prod.split)+)
qed

lemma spec_install_pytorch: "spec (install_pytorch s) (\<lambda>r ms is. marks ms = [])"
  unfolding install_pytorch_def
  by ((intro spec_wp spec_weaken [OF spec_install_until_failure] allI impI conjI
       | simp add: say_if_def Let_def del: install_until_failure.simps split: sum.split prod.split)+)

lemma spec_preinstall_numpy: "spec (preinstall_numpy s) (\<lambda>r ms is. marks ms = [])"
  unfolding preinstall_numpy_def
  by ((intro spec_wp spec_weaken [OF spec_install_stage] allI impI conjI
       | simp add: say_if_def Let_def split: sum.split prod.split)+)

lemma spec_verify_pytorch:
  "spec (verify_pytorch s)
     (\<lambda>r ms is. marks ms = (if r = Inr False then [Req PyTorchVerifyFailed] else []))"
  unfolding verify_pytorch_def
  by ((intro spec_wp spec_weaken [OF spec_run_command_stage] allI impI conjI
       | simp add: say_if_def Let_def split: sum.split prod.split)+)

lemma spec_fallback_loop:
  "spec (fallback_loop s pkgs n)
     (\<lambda>r ms is. marks ms = []
        \<and> (case r of Inl e \<Rightarrow> True
            | Inr k \<Rightarrow> attempted ms = pkgs \<and> k = n + length (installed ms)
               \<and> set (installed ms) \<subseteq> set pkgs
               \<and> map inv_args is = map (\<lambda>p. fst (pip_install_command s p None)) pkgs
               \<and> map inv_shell is = map (\<lambda>p. snd (pip_install_command s p None)) pkgs))"
proof (induction pkgs arbitrary: n)
  case Nil
  then show ?case by (simp add: spec_retM)
next
  case (Cons pkg pkgs)
  show ?case
    by ((intro spec_wp spec_weaken [OF spec_install_stage] spec_weaken [OF Cons.IH] allI impI conjI
         | simp add: say_if_def Let_def split: sum.split prod.split
         | blast)+)
qed

lemma spec_install_critical_packages_fallback:
  "spec (install_critical_packages_fallback s)
     (\<lambda>r ms is. marks ms = [Fb FallbackStart]
        \<and> (case r of Inl e \<Rightarrow> True
            | Inr b \<Rightarrow> attempted ms = critical_pkgs
               \<and> b = (installed ms \<noteq> [])
               \<and> set (installed ms) \<subseteq> set critical_pkgs
               \<and> map inv_args is = map (\<lambda>p. fst (pip_install_command s p None)) critical_pkgs
               \<and> map inv_shell is = map (\<lambda>p. snd (pip_install_command s p None)) critical_pkgs))"
  unfolding install_critical_packages_fallback_def
  by ((intro spec_wp spec_weaken [OF spec_fallback_loop] allI impI conjI
       | simp add: say_if_def Let_def del: fallback_loop.simps split: sum.split prod.split)+)

lemma spec_install_gradio:
  "spec (install_gradio s) (\<lambda>r ms is. marks ms = [Gradio EnsuringGradio])"
  unfolding install_gradio_def
  by ((intro spec_wp spec_weaken [OF spec_run_command_stage] spec_weaken [OF spec_install_stage]
        allI impI conjI
       | simp add: say_if_def Let_def split: sum.split prod.split)+)

lemma spec_bulk_failure_hint: "spec (bulk_failure_hint e) (\<lambda>r ms is. marks ms = [] \<and> attempted ms = [] \<and> installed ms = [] \<and> r = Inr ())"
  unfolding bulk_failure_hint_def
  by ((intro spec_wp allI impI conjI
       | simp add: say_if_def Let_def split: sum.split prod.split)+)

lemma gradio_critical: "''gradio'' \<in> set critical_pkgs"
  by (simp add: critical_pkgs_def)

lemma spec_bulk_requirements:
  "spec (bulk_requirements s)
     (\<lambda>r ms is.
        (marks ms = [] \<and> r \<noteq> Inr True \<and> r \<noteq> Inr False)
        \<or> (marks ms = [Req ReqsProcessed, Gradio EnsuringGradio] \<and> r \<noteq> Inr False)
        \<or> (marks ms = [Req ReqsFailed, Fb FallbackStart]
            \<and> (r = Inr True \<longrightarrow> ''gradio'' \<in> set (attempted ms) \<and> installed ms \<noteq> [])
            \<and> (r = Inr False \<longrightarrow> ''gradio'' \<in> set (attempted ms) \<and> installed ms = [])))"
  unfolding bulk_requirements_def
  by ((intro spec_wp spec_weaken [OF spec_run_command_stage] spec_weaken [OF spec_install_gradio]
        spec_weaken [OF spec_bulk_failure_hint]
        spec_weaken [OF spec_install_critical_packages_fallback] allI impI conjI
       | simp add: say_if_def Let_def gradio_critical split: sum.split prod.split
       | blast)+)

lemma spec_install_requirements:
  "spec (install_requirements s)
     (\<lambda>r ms is.
        (marks ms = [] \<and> r \<noteq> Inr True)
        \<or> (marks ms = [Req PyTorchVerifyFailed] \<and> r = Inr False)
        \<or> (marks ms = [Req ReqsProcessed, Gradio EnsuringGradio] \<and> r \<noteq> Inr False)
        \<or> (marks ms = [Req ReqsFailed, Fb FallbackStart]
            \<and> (r = Inr True \<longrightarrow> ''gradio'' \<in> set (attempted ms))))"
  unfolding install_requirements_def
  by ((intro spec_wp spec_weaken [OF spec_upgrade_tooling] spec_weaken [OF spec_install_pytorch]
        spec_weaken [OF spec_verify_pytorch] spec_weaken [OF spec_preinstall_numpy]
        spec_weaken [OF spec_bulk_requirements] allI impI conjI
       | simp add: say_if_def Let_def split: sum.split prod.split
       | blast)+)


lemma marks_of_run:
  assumes "(case m w of (r, w') \<Rightarrow> (r, marks (printed w'))) = (r0, ms0)" and "printed w = []"
  shows "fst (m w) = r0 \<and> marks (printed_by m w) = ms0"
  using assms by (cases "m w") (simp add: printed_by_def)

lemma quiet_world_empty [simp]: "printed (quiet_world os n) = []" "executed (quiet_world os n) = []"
  by (simp_all add: quiet_world_def)

section \<open>Properties of the Installation Pipeline\<close>

text \<open>
  C10. When \<^verbatim>\<open>requirements.txt\<close> is not a file in the repository directory,
  \<^verbatim>\<open>install_requirements\<close> returns false at once: it launches no command and prints
  only that the file is missing.
\<close>

theorem missing_manifest_runs_nothing:
  assumes "\<not> fs_is_file w (executed w) (requirements_file s)"
  shows "fst (install_requirements s w) = Inr False
       \<and> launched_by (install_requirements s) w = []
       \<and> printed_by (install_requirements s) w = [Req ReqsFileMissing]"
  using assms
  by (simp add: install_requirements_def monad_defs is_file_def launched_by_def printed_by_def)

theorem missing_manifest_runs_nothing_witness:
  "\<not> fs_is_file ((quiet_world (always ok) 11)\<lparr>fs_is_file := no_path\<rparr>)
        (executed ((quiet_world (always ok) 11)\<lparr>fs_is_file := no_path\<rparr>)) (requirements_file venv_setup)
   \<and> fst (install_requirements venv_setup ((quiet_world (always ok) 11)\<lparr>fs_is_file := no_path\<rparr>)) = Inr False
   \<and> launched_by (install_requirements venv_setup) ((quiet_world (always ok) 11)\<lparr>fs_is_file := no_path\<rparr>) = []"
proof -
  have h: "\<not> fs_is_file ((quiet_world (always ok) 11)\<lparr>fs_is_file := no_path\<rparr>)
        (executed ((quiet_world (always ok) 11)\<lparr>fs_is_file := no_path\<rparr>)) (requirements_file venv_setup)"
    by (simp add: no_path_def)
  from missing_manifest_runs_nothing [OF h] h show ?thesis by simp
qed

lemma strict_result_simps [simp]:
  "strict_result (Exited returncode out err) = Inr (returncode = 0, out, err)"
  "strict_result (PopenFileNotFound filename m) = Inr (False, [], m)"
  "strict_result (PopenException m) = Inr (False, [], m)"
  "strict_result PopenInterrupt = Inl KeyboardInterrupt"
  by (simp_all add: strict_result_def)

lemma run_spec_run_command_strict:
  assumes "prepare_command cmd shell = Inr (Some (log, actual))"
    and "\<And>filename. \<not> no_name_to_report filename actual log"
  shows "run_spec (run_command s cmd True True shell cwd) w
     (\<lambda>r ms is as. list_all from_run ms \<and> is = [the_invocation s actual True shell cwd]
        \<and> r = strict_result (as ! 0))"
  unfolding run_command_launched [OF assms(1)]
  using assms(2) failed_file_reported_cases [of _ actual log]
  apply (intro run_spec_rules)
  apply (simp add: say_if_def Let_def split: popen_result.split sum.split option.split prod.split)
  apply (intro allI impI conjI run_spec_rules)
  apply (auto simp add: say_if_def Let_def intro!: run_spec_rules split: popen_result.split sum.split option.split prod.split)
   apply (metis Inl_Inr_False)+
  done


lemma named_by_char: "c \<in> set log \<Longrightarrow> \<not> py_isspace c \<Longrightarrow> \<not> no_name_to_report filename actual log"
  by (auto simp: no_name_to_report_def list_all_iff)

lemma named_by_list: "\<not> no_name_to_report filename (CmdList (a # as)) log"
  by (simp add: no_name_to_report_def)

lemma list2cmdline_conda: "\<exists>rest. list2cmdline (''conda'' # args) = ''conda'' @ rest"
proof -
  have "l2c_arg [] ''conda'' = ''conda''"
    by (simp add: l2c_arg_def l2c_needquote_def backslash_def dquote_def tab_def)
  then show ?thesis by (simp add: list2cmdline_def foldl_l2c_arg)
qed

lemma named_conda: "\<not> no_name_to_report filename actual (list2cmdline (''conda'' # args))"
proof -
  from list2cmdline_conda [of args] obtain rest
    where "list2cmdline (''conda'' # args) = ''conda'' @ rest" by blast
  then show ?thesis
    by (intro named_by_char [of "CHR ''c''"]) (simp_all add: py_isspace_def)
qed

lemma named_dquote: "\<not> no_name_to_report filename actual (dquote # rest)"
  by (intro named_by_char [of dquote]) (simp_all add: py_isspace_def dquote_def)

lemma pip_command_prepared:
  assumes "pip_command (get_pip_executable_cmd_list s) t1 t2 = (cmd, shell)"
  shows "\<exists>log. prepare_command cmd shell = Inr (Some (log, cmd))
           \<and> (\<forall>filename. \<not> no_name_to_report filename cmd log)"
  using assms
  by (auto simp: get_pip_executable_cmd_list_def pip_command_def prepare_command_def
        named_conda named_dquote named_by_list
      split: if_splits)

lemma pip_install_command_prepared:
  assumes "pip_install_command s pkg extra = (cmd, shell)"
  shows "\<exists>log. prepare_command cmd shell = Inr (Some (log, cmd))
           \<and> (\<forall>filename. \<not> no_name_to_report filename cmd log)"
  using assms
  by (auto simp: get_pip_executable_cmd_list_def pip_install_command_def prepare_command_def Let_def
        named_conda named_dquote named_by_list
      split: if_splits)

lemma verify_command_prepared:
  assumes "verify_command (get_pip_executable_cmd_list s) = Inr (cmd, shell)"
  shows "\<exists>log. prepare_command cmd shell = Inr (Some (log, cmd))
           \<and> (\<forall>filename. \<not> no_name_to_report filename cmd log)"
  using assms
  by (auto simp: get_pip_executable_cmd_list_def verify_command_def prepare_command_def Let_def
        named_conda named_dquote named_by_list
      split: if_splits)

lemma strict_result_Inl: "strict_result a = Inl e \<Longrightarrow> strict_ok a = Inl e"
  by (cases a) (simp_all add: strict_ok_def)

lemma strict_result_Inr: "strict_result a = Inr (b, out, err) \<Longrightarrow> strict_ok a = Inr b"
  by (cases a) (auto simp: strict_ok_def)

lemma run_spec_prepared:
  assumes "prepare_command cmd shell = Inr (Some (log, cmd))"
    and "\<forall>filename. \<not> no_name_to_report filename cmd log"
  shows "run_spec (run_command s cmd True True shell cwd) w
     (\<lambda>r ms is as. length is = 1 \<and> inv_args (is ! 0) = cmd \<and> inv_shell (is ! 0) = shell
        \<and> r = strict_result (as ! 0))"
  by (rule run_spec_weaken [OF run_spec_run_command_strict [OF assms(1)]])
     (use assms(2) in \<open>simp_all add: the_invocation_def\<close>)

lemma run_spec_install_package_with_pip:
  "run_spec (install_package_with_pip s pkg cwd extra) w
     (\<lambda>r ms is as. length is = 1 \<and> r = strict_ok (as ! 0))"
proof -
  obtain final use_shell where pc: "pip_install_command s pkg extra = (final, use_shell)"
    by (cases "pip_install_command s pkg extra")
  from pip_install_command_prepared [OF pc]
  obtain log where prep: "prepare_command final use_shell = Inr (Some (log, final))"
    and named: "\<forall>filename. \<not> no_name_to_report filename final log" by blast
  note run = run_spec_prepared [OF prep named]
  show ?thesis
    unfolding install_package_with_pip_def pc
    by ((intro run_spec_rules run_spec_weaken [OF run] allI impI conjI
         | simp add: say_if_def Let_def strict_result_Inl strict_result_Inr split: sum.split prod.split)+)
qed


lemma run_spec_upgrade_loop:
  "run_spec (upgrade_loop s (get_pip_executable_cmd_list s) pkgs b) w
     (\<lambda>r ms is as. length is \<le> length pkgs
        \<and> (case r of Inl e \<Rightarrow> True | Inr x \<Rightarrow> length is = length pkgs))"
proof (induction pkgs arbitrary: b w)
  case Nil
  then show ?case by (simp add: run_spec_retM)
next
  case (Cons pkg pkgs)
  obtain cmd shell where pc:
    "pip_command (get_pip_executable_cmd_list s) ('' install --upgrade '' @ shlex_quote pkg)
       [''install'', ''--upgrade'', pkg] = (cmd, shell)"
    by (cases "pip_command (get_pip_executable_cmd_list s) ('' install --upgrade '' @ shlex_quote pkg)
       [''install'', ''--upgrade'', pkg]")
  from pip_command_prepared [OF pc]
  obtain log where prep: "prepare_command cmd shell = Inr (Some (log, cmd))"
    and named: "\<forall>filename. \<not> no_name_to_report filename cmd log" by blast
  note run = run_spec_prepared [OF prep named]
  show ?case
    unfolding upgrade_loop.simps pc
    by ((intro run_spec_rules run_spec_weaken [OF run] run_spec_weaken [OF Cons.IH] allI impI conjI
         | simp add: say_if_def Let_def split: sum.split prod.split
         | (auto split: sum.splits)[1])+)
qed

lemma run_spec_upgrade_tooling:
  "run_spec (upgrade_tooling s) w
     (\<lambda>r ms is as. marks ms = [] \<and> length is \<le> 3
        \<and> (case r of Inl e \<Rightarrow> True | Inr x \<Rightarrow> length is = 3))"
proof -
  note loop = run_spec_conj [OF run_spec_upgrade_loop run_spec_of_spec [OF spec_upgrade_loop]]
  show ?thesis
    unfolding upgrade_tooling_def
    by ((intro run_spec_rules run_spec_weaken [OF loop] allI impI conjI
         | simp add: say_if_def Let_def del: upgrade_loop.simps split: sum.split prod.split
         | (auto split: sum.splits)[1])+)
qed

lemma run_spec_install_until_failure:
  "run_spec (install_until_failure s specs) w
     (\<lambda>r ms is as. marks ms = [] \<and> length is \<le> length specs
        \<and> (r = Inr True \<longrightarrow> length is = length specs))"
proof (induction specs arbitrary: w)
  case Nil
  then show ?case by (simp add: run_spec_retM)
next
  case (Cons sp specs)
  note inst = run_spec_conj [OF run_spec_install_package_with_pip run_spec_of_spec [OF spec_install_stage]]
  show ?case
    unfolding install_until_failure.simps
    by ((intro run_spec_rules run_spec_weaken [OF inst] run_spec_weaken [OF Cons.IH] allI impI conjI
         | simp add: say_if_def Let_def split: sum.split prod.split
         | (auto split: sum.splits)[1])+)
qed

lemma length_pt_pip_specs [simp]: "length (pt_pip_specs n) = 3"
  by (simp add: pt_pip_specs_def)

lemma run_spec_install_pytorch:
  "run_spec (install_pytorch s) w
     (\<lambda>r ms is as. marks ms = [] \<and> length is \<le> 3 \<and> (r = Inr True \<longrightarrow> length is = 3))"
  unfolding install_pytorch_def
  by ((intro run_spec_rules run_spec_weaken [OF run_spec_install_until_failure] allI impI conjI
       | simp add: say_if_def Let_def del: install_until_failure.simps split: sum.split prod.split
         | (auto split: sum.splits)[1])+)

lemma run_spec_preinstall_numpy:
  "run_spec (preinstall_numpy s) w (\<lambda>r ms is as. marks ms = [] \<and> length is = 1)"
proof -
  note inst = run_spec_conj [OF run_spec_install_package_with_pip run_spec_of_spec [OF spec_install_stage]]
  show ?thesis
    unfolding preinstall_numpy_def
    by ((intro run_spec_rules run_spec_weaken [OF inst] allI impI conjI
         | simp add: say_if_def Let_def split: sum.split prod.split
         | (auto split: sum.splits)[1])+)
qed

lemma verification_failed_result:
  "strict_result a = Inr (b, out, err) \<Longrightarrow> verification_failed a \<longleftrightarrow> \<not> (b \<and> out \<noteq> [])"
  by (cases a) (auto simp: verification_failed_def)

lemma verification_failed_interrupt:
  "strict_result a = Inl e \<Longrightarrow> \<not> verification_failed a"
  by (cases a) (auto simp: verification_failed_def)

lemma run_spec_verify_pytorch:
  "run_spec (verify_pytorch s) w
     (\<lambda>r ms is as. (is = [] \<or> length is = 1)
        \<and> marks ms = (if r = Inr False then [Req PyTorchVerifyFailed] else [])
        \<and> (case r of Inl e \<Rightarrow> True | Inr b \<Rightarrow> length is = 1)
        \<and> (length is = 1 \<longrightarrow>
              verify_command (get_pip_executable_cmd_list s) = Inr (inv_args (is ! 0), inv_shell (is ! 0)))
        \<and> (length is = 1 \<and> verification_failed (as ! 0) \<longrightarrow> r = Inr False))"
proof (cases "verify_command (get_pip_executable_cmd_list s)")
  case (Inl e)
  then show ?thesis
    unfolding verify_pytorch_def
    by ((intro run_spec_rules allI impI conjI | simp)+)
next
  case (Inr p)
  obtain cmd shell where p: "p = (cmd, shell)" by (cases p)
  from verify_command_prepared [of s cmd shell] Inr p
  obtain log where prep: "prepare_command cmd shell = Inr (Some (log, cmd))"
    and named: "\<forall>filename. \<not> no_name_to_report filename cmd log" by auto
  note run = run_spec_conj [OF run_spec_prepared [OF prep named] run_spec_of_spec [OF spec_run_command_stage]]
  show ?thesis
    unfolding verify_pytorch_def Inr p
    by ((intro run_spec_rules run_spec_weaken [OF run] allI impI conjI
         | simp add: say_if_def Let_def verification_failed_result verification_failed_interrupt
             split: sum.split prod.split
         | (auto split: sum.splits)[1])+)
qed


lemma strict_result_True: "strict_result a = Inr (True, out, err) \<Longrightarrow> succeeded a \<and> \<not> failure a"
  by (cases a) auto

lemma strict_result_False: "strict_result a = Inr (False, out, err) \<Longrightarrow> failure a \<and> \<not> succeeded a"
  by (cases a) auto

lemma strict_result_raised: "strict_result a = Inl e \<Longrightarrow> \<not> failure a \<and> \<not> succeeded a"
  by (cases a) auto

lemma run_spec_bulk_requirements:
  "run_spec (bulk_requirements s) w
     (\<lambda>r ms is as. 1 \<le> length is
        \<and> inv_args (is ! 0) = fst (bulk_command s) \<and> inv_shell (is ! 0) = snd (bulk_command s)
        \<and> marks ms = (if failure (as ! 0) then [Req ReqsFailed, Fb FallbackStart]
                      else if succeeded (as ! 0) then [Req ReqsProcessed, Gradio EnsuringGradio]
                      else []))"
proof -
  obtain cmd shell where pc: "bulk_command s = (cmd, shell)" by (cases "bulk_command s")
  from pip_command_prepared [OF pc [unfolded bulk_command_def]]
  obtain log where prep: "prepare_command cmd shell = Inr (Some (log, cmd))"
    and named: "\<forall>filename. \<not> no_name_to_report filename cmd log" by blast
  note run = run_spec_conj [OF run_spec_prepared [OF prep named] run_spec_of_spec [OF spec_run_command_stage]]
  note gradio = run_spec_of_spec [OF spec_install_gradio]
  note hint = run_spec_of_spec [OF spec_bulk_failure_hint]
  note fallback = run_spec_of_spec [OF spec_install_critical_packages_fallback]
  show ?thesis
    unfolding bulk_requirements_def pc [unfolded bulk_command_def]
    by ((intro run_spec_rules run_spec_weaken [OF run] run_spec_weaken [OF gradio]
          run_spec_weaken [OF hint] run_spec_weaken [OF fallback] allI impI conjI
         | simp add: say_if_def Let_def pc strict_result_True strict_result_False strict_result_raised
             nth_append split: sum.split prod.split
         | (auto split: sum.splits dest: strict_result_True strict_result_False strict_result_raised)[1])+)
qed

lemma run_spec_install_requirements:
  "run_spec (install_requirements s) w
     (\<lambda>r ms is as.
        (Fb FallbackStart \<in> set (marks ms) \<longleftrightarrow> 8 < length is \<and> failure (as ! 8))
        \<and> (8 < length is \<longrightarrow>
              inv_args (is ! 8) = fst (bulk_command s) \<and> inv_shell (is ! 8) = snd (bulk_command s))
        \<and> (6 < length is \<longrightarrow>
              verify_command (get_pip_executable_cmd_list s) = Inr (inv_args (is ! 6), inv_shell (is ! 6)))
        \<and> (6 < length is \<and> verification_failed (as ! 6) \<longrightarrow> r = Inr False \<and> length is = 7))"
  unfolding install_requirements_def
  by ((intro run_spec_rules run_spec_weaken [OF run_spec_upgrade_tooling]
        run_spec_weaken [OF run_spec_install_pytorch] run_spec_weaken [OF run_spec_verify_pytorch]
        run_spec_weaken [OF run_spec_preinstall_numpy] run_spec_weaken [OF run_spec_bulk_requirements]
        allI impI conjI
       | simp add: say_if_def Let_def nth_append split: sum.split prod.split
       | (auto split: sum.splits)[1])+)


lemma observed_run:
  assumes "(case m w of (r, w') \<Rightarrow>
              (r, marks (printed w'), length (executed w'), P (executed w')
                 (answers (respond w) [] (executed w')))) = (r0, ms0, n0, p0)"
    and "printed w = []" and "executed w = []"
  shows "fst (m w) = r0 \<and> marks (printed_by m w) = ms0 \<and> length (launched_by m w) = n0
         \<and> P (launched_by m w) (answers_by m w) = p0"
  using assms by (cases "m w") (simp add: printed_by_def launched_by_def answers_by_def)

text \<open>
  C2, as the code has it. The bulk installation is the ninth command of a run of
  \<^verbatim>\<open>install_requirements\<close>, after the three upgrades, the three framework packages, the
  verification and the array library. The fallback stage starts exactly in the runs that
  launch this ninth command and in which the operating system answers it with a failure: a
  nonzero exit, or a launch that raises an exception other than the operator's interrupt.
  The verification is the seventh command; when the answer to it is a failure or an empty
  output, the run ends there with the result false, and the fallback stage does not start.
\<close>

theorem fallback_runs_iff_bulk_fails:
  "(Fb FallbackStart \<in> set (printed_by (install_requirements s) w)
      \<longleftrightarrow> 8 < length (launched_by (install_requirements s) w)
          \<and> failure (answers_by (install_requirements s) w ! 8))
   \<and> (8 < length (launched_by (install_requirements s) w) \<longrightarrow>
        inv_args (launched_by (install_requirements s) w ! 8) = fst (bulk_command s)
        \<and> inv_shell (launched_by (install_requirements s) w ! 8) = snd (bulk_command s))
   \<and> (6 < length (launched_by (install_requirements s) w) \<longrightarrow>
        verify_command (get_pip_executable_cmd_list s)
          = Inr (inv_args (launched_by (install_requirements s) w ! 6),
                 inv_shell (launched_by (install_requirements s) w ! 6)))
   \<and> (6 < length (launched_by (install_requirements s) w)
        \<and> verification_failed (answers_by (install_requirements s) w ! 6) \<longrightarrow>
          fst (install_requirements s w) = Inr False
          \<and> length (launched_by (install_requirements s) w) = 7
          \<and> Fb FallbackStart \<notin> set (printed_by (install_requirements s) w))"
proof -
  have m: "Fb FallbackStart \<in> set (printed_by (install_requirements s) w)
      \<longleftrightarrow> Fb FallbackStart \<in> set (marks (printed_by (install_requirements s) w))"
    by (simp add: mark_in_marks)
  from run_specD [OF run_spec_install_requirements, of s w]
  show ?thesis
    unfolding m by auto
qed

lemma bulk_fails_run:
  "(case install_requirements venv_setup (quiet_world (fails_on ''-r'') 11) of
      (r, w') \<Rightarrow> (r, marks (printed w'), length (executed w'),
        (\<lambda>is as. (inv_args (is ! 8), failure (as ! 8))) (executed w')
          (answers (respond (quiet_world (fails_on ''-r'') 11)) [] (executed w'))))
   = (Inr True, [Req ReqsFailed, Fb FallbackStart], 23,
      (CmdList [''/w/bagel_env/bin/python'', ''-m'', ''pip'', ''install'', ''-r'',
                ''/w/BAGEL/requirements.txt''], True))"
  by code_simp

lemma verification_fails_run:
  "(case install_requirements venv_setup (quiet_world (always (Exited 0 [] [])) 11) of
      (r, w') \<Rightarrow> (r, marks (printed w'), length (executed w'),
        (\<lambda>is as. verification_failed (as ! 6)) (executed w')
          (answers (respond (quiet_world (always (Exited 0 [] [])) 11)) [] (executed w'))))
   = (Inr False, [Req PyTorchVerifyFailed], 7, True)"
  by code_simp

theorem fallback_runs_iff_bulk_fails_witness:
  "8 < length (launched_by (install_requirements venv_setup) (quiet_world (fails_on ''-r'') 11))
   \<and> inv_args (launched_by (install_requirements venv_setup) (quiet_world (fails_on ''-r'') 11) ! 8)
       = CmdList [''/w/bagel_env/bin/python'', ''-m'', ''pip'', ''install'', ''-r'',
                  ''/w/BAGEL/requirements.txt'']
   \<and> failure (answers_by (install_requirements venv_setup) (quiet_world (fails_on ''-r'') 11) ! 8)
   \<and> Fb FallbackStart
       \<in> set (printed_by (install_requirements venv_setup) (quiet_world (fails_on ''-r'') 11))
   \<and> 6 < length (launched_by (install_requirements venv_setup) (quiet_world (always (Exited 0 [] [])) 11))
   \<and> verification_failed
       (answers_by (install_requirements venv_setup) (quiet_world (always (Exited 0 [] [])) 11) ! 6)
   \<and> fst (install_requirements venv_setup (quiet_world (always (Exited 0 [] [])) 11)) = Inr False
   \<and> Fb FallbackStart
       \<notin> set (printed_by (install_requirements venv_setup) (quiet_world (always (Exited 0 [] [])) 11))"
proof -
  let ?b = "quiet_world (fails_on ''-r'') 11"
  let ?v = "quiet_world (always (Exited 0 [] [])) 11"
  from observed_run [where m = "install_requirements venv_setup" and w = ?b
      and P = "\<lambda>is as. (inv_args (is ! 8), failure (as ! 8))", OF bulk_fails_run]
  have b: "8 < length (launched_by (install_requirements venv_setup) ?b)"
    "inv_args (launched_by (install_requirements venv_setup) ?b ! 8)
       = CmdList [''/w/bagel_env/bin/python'', ''-m'', ''pip'', ''install'', ''-r'',
                  ''/w/BAGEL/requirements.txt'']"
    "failure (answers_by (install_requirements venv_setup) ?b ! 8)"
    by simp_all
  from observed_run [where m = "install_requirements venv_setup" and w = ?v
      and P = "\<lambda>is as. verification_failed (as ! 6)", OF verification_fails_run]
  have v: "6 < length (launched_by (install_requirements venv_setup) ?v)"
    "verification_failed (answers_by (install_requirements venv_setup) ?v ! 6)"
    by simp_all
  from fallback_runs_iff_bulk_fails [of venv_setup ?b] fallback_runs_iff_bulk_fails [of venv_setup ?v] b v
  show ?thesis by blast
qed


lemma verify_fails_run:
  "(case install_requirements venv_setup (quiet_world (always (Exited 0 [] [])) 11) of
      (r, w') \<Rightarrow> (r, marks (printed w')))
   = (Inr False, [Req PyTorchVerifyFailed])"
  by code_simp

text \<open>
  C2 as stated fails: a verification that prints nothing fails, and the run ends without
  the fallback stage.
\<close>

theorem verification_failure_without_fallback_counterexample:
  "Req PyTorchVerifyFailed
     \<in> set (printed_by (install_requirements venv_setup) (quiet_world (always (Exited 0 [] [])) 11))
   \<and> Fb FallbackStart
     \<notin> set (printed_by (install_requirements venv_setup) (quiet_world (always (Exited 0 [] [])) 11))"
proof -
  let ?w = "quiet_world (always (Exited 0 [] [])) 11"
  from marks_of_run [where m = "install_requirements venv_setup" and w = ?w, OF verify_fails_run]
  have m: "marks (printed_by (install_requirements venv_setup) ?w) = [Req PyTorchVerifyFailed]"
    by simp
  have "Req PyTorchVerifyFailed \<in> set (marks (printed_by (install_requirements venv_setup) ?w))"
    "Fb FallbackStart \<notin> set (marks (printed_by (install_requirements venv_setup) ?w))"
    by (simp_all add: m)
  then show ?thesis by (simp add: mark_in_marks)
qed

text \<open>
  C8, as the code has it. When \<^verbatim>\<open>install_requirements\<close> returns true, either the bulk
  installation succeeded and \<^verbatim>\<open>install_gradio\<close> was started, or the bulk installation
  failed and the fallback ran: then \<^verbatim>\<open>install_gradio\<close> was not started, and an
  installation of the package \<^verbatim>\<open>gradio\<close> was attempted as an entry of the critical list.
\<close>

theorem gradio_on_success_paths:
  assumes "fst (install_requirements s w) = Inr True"
  shows "(Req ReqsProcessed \<in> set (printed_by (install_requirements s) w)
          \<and> Gradio EnsuringGradio \<in> set (printed_by (install_requirements s) w))
       \<or> (Req ReqsFailed \<in> set (printed_by (install_requirements s) w)
          \<and> Fb FallbackStart \<in> set (printed_by (install_requirements s) w)
          \<and> Gradio EnsuringGradio \<notin> set (printed_by (install_requirements s) w)
          \<and> ''gradio'' \<in> set (attempted (printed_by (install_requirements s) w)))"
proof -
  let ?ms = "printed_by (install_requirements s) w"
  have m: "x \<in> set ?ms \<longleftrightarrow> x \<in> set (marks ?ms)" if "is_mark x" for x
    using that by (simp add: mark_in_marks)
  from specD [OF spec_install_requirements, of s w] assms
  show ?thesis
    by (auto simp: m)
qed

lemma all_ok_run:
  "(case install_requirements venv_setup (quiet_world (always ok) 11) of
      (r, w') \<Rightarrow> (r, marks (printed w')))
   = (Inr True, [Req ReqsProcessed, Gradio EnsuringGradio])"
  by code_simp

lemma manifest_fails_run:
  "(case install_requirements venv_setup (quiet_world (fails_on ''-r'') 11) of
      (r, w') \<Rightarrow> (r, marks (printed w')))
   = (Inr True, [Req ReqsFailed, Fb FallbackStart])"
  by code_simp

theorem gradio_on_success_paths_witness:
  "fst (install_requirements venv_setup (quiet_world (always ok) 11)) = Inr True
   \<and> Req ReqsProcessed \<in> set (printed_by (install_requirements venv_setup) (quiet_world (always ok) 11))
   \<and> Gradio EnsuringGradio \<in> set (printed_by (install_requirements venv_setup) (quiet_world (always ok) 11))"
proof -
  let ?w = "quiet_world (always ok) 11"
  from marks_of_run [where m = "install_requirements venv_setup" and w = ?w, OF all_ok_run]
  have h: "fst (install_requirements venv_setup ?w) = Inr True"
    and m: "marks (printed_by (install_requirements venv_setup) ?w)
      = [Req ReqsProcessed, Gradio EnsuringGradio]"
    by simp_all
  have "Req ReqsFailed \<notin> set (marks (printed_by (install_requirements venv_setup) ?w))"
    by (simp add: m)
  then have nf: "Req ReqsFailed \<notin> set (printed_by (install_requirements venv_setup) ?w)"
    by (simp add: mark_in_marks)
  from gradio_on_success_paths [OF h] nf h show ?thesis by blast
qed

text \<open>
  C8 as stated fails: when the bulk installation fails and the fallback succeeds, the run
  reports success and \<^verbatim>\<open>install_gradio\<close> is never started.
\<close>

theorem fallback_success_without_gradio_helper_counterexample:
  "fst (install_requirements venv_setup (quiet_world (fails_on ''-r'') 11)) = Inr True
   \<and> Gradio EnsuringGradio
       \<notin> set (printed_by (install_requirements venv_setup) (quiet_world (fails_on ''-r'') 11))"
proof -
  let ?w = "quiet_world (fails_on ''-r'') 11"
  from marks_of_run [where m = "install_requirements venv_setup" and w = ?w, OF manifest_fails_run]
  have h: "fst (install_requirements venv_setup ?w) = Inr True"
    and m: "marks (printed_by (install_requirements venv_setup) ?w) = [Req ReqsFailed, Fb FallbackStart]"
    by simp_all
  have "Gradio EnsuringGradio \<notin> set (marks (printed_by (install_requirements venv_setup) ?w))"
    by (simp add: m)
  then have "Gradio EnsuringGradio \<notin> set (printed_by (install_requirements venv_setup) ?w)"
    by (simp add: mark_in_marks)
  with h show ?thesis by simp
qed


section \<open>Properties of the Installer Command Builder\<close>

lemma pip_install_command_conda:
  "use_conda s \<Longrightarrow> pip_install_command s pkg extra =
     (CmdStr (list2cmdline ([''conda'', ''run'', ''-n'', env_name s, ''python'', ''-m'', ''pip'', ''install'']
                @ install_flags extra @ [pkg])), True)"
  by (simp add: pip_install_command_def get_pip_executable_cmd_list_def)

lemma pip_install_command_venv:
  "\<not> use_conda s \<Longrightarrow> \<not> is_msys_python_base s \<Longrightarrow> python_executable s \<noteq> ''conda'' \<Longrightarrow>
   pip_install_command s pkg extra =
     (CmdList ([python_executable s, ''-m'', ''pip'', ''install''] @ install_flags extra @ [pkg]), False)"
  by (simp add: pip_install_command_def get_pip_executable_cmd_list_def)

lemma pip_install_command_msys:
  "\<not> use_conda s \<Longrightarrow> is_msys_python_base s \<Longrightarrow>
   pip_install_command s pkg extra =
     (CmdStr ([dquote] @ python_executable s @ [dquote] @ '' -m pip install ''
              @ join '' '' (map shlex_quote (install_flags extra)) @ '' '' @ shlex_quote pkg), True)"
  by (simp add: pip_install_command_def get_pip_executable_cmd_list_def is_msys_python_base_def)

lemma install_launches:
  "map inv_args (launched_by (install_package_with_pip s pkg cwd extra) w)
     = [fst (pip_install_command s pkg extra)]
   \<and> map inv_shell (launched_by (install_package_with_pip s pkg cwd extra) w)
     = [snd (pip_install_command s pkg extra)]"
  using specD [OF spec_install_package_with_pip, of s pkg cwd extra w] by simp

text \<open>
  C5. For the conda backend the base is \<^verbatim>\<open>conda run -n <env> python -m pip\<close>, and an
  installation launches it as one shell string, with the shell. For the virtual-environment
  backend the base is the argument list of the resolved interpreter, launched as it is and
  without the shell (the interpreter not being named \<^verbatim>\<open>conda\<close>, which the test
  on the first element of the list would take for the conda backend). On Windows with an
  interpreter path that contains \<^verbatim>\<open>msys\<close> or \<^verbatim>\<open>mingw\<close>, in any case of the letters,
  the base and the installation are shell strings with the path in double quotes.
\<close>

theorem installer_command_builder:
  "(use_conda s \<longrightarrow>
      get_pip_executable_cmd_list s
        = CmdList [''conda'', ''run'', ''-n'', env_name s, ''python'', ''-m'', ''pip'']
      \<and> map inv_args (launched_by (install_package_with_pip s pkg cwd extra) w)
        = [CmdStr (list2cmdline
             ([''conda'', ''run'', ''-n'', env_name s, ''python'', ''-m'', ''pip'', ''install'']
              @ install_flags extra @ [pkg]))]
      \<and> map inv_shell (launched_by (install_package_with_pip s pkg cwd extra) w) = [True])
   \<and> (\<not> use_conda s \<and> \<not> is_msys_python_base s \<longrightarrow>
      get_pip_executable_cmd_list s = CmdList [python_executable s, ''-m'', ''pip'']
      \<and> (python_executable s \<noteq> ''conda'' \<longrightarrow>
          map inv_args (launched_by (install_package_with_pip s pkg cwd extra) w)
            = [CmdList ([python_executable s, ''-m'', ''pip'', ''install'']
                 @ install_flags extra @ [pkg])]
          \<and> map inv_shell (launched_by (install_package_with_pip s pkg cwd extra) w) = [False]))
   \<and> (\<not> use_conda s \<and> is_msys_python_base s \<longrightarrow>
      get_pip_executable_cmd_list s = CmdStr ([dquote] @ python_executable s @ [dquote] @ '' -m pip'')
      \<and> map inv_args (launched_by (install_package_with_pip s pkg cwd extra) w)
        = [CmdStr ([dquote] @ python_executable s @ [dquote] @ '' -m pip install ''
             @ join '' '' (map shlex_quote (install_flags extra)) @ '' '' @ shlex_quote pkg)]
      \<and> map inv_shell (launched_by (install_package_with_pip s pkg cwd extra) w) = [True])"
proof (intro conjI impI)
  assume c: "use_conda s"
  then show "get_pip_executable_cmd_list s
        = CmdList [''conda'', ''run'', ''-n'', env_name s, ''python'', ''-m'', ''pip'']"
    by (simp add: get_pip_executable_cmd_list_def)
  from c show "map inv_args (launched_by (install_package_with_pip s pkg cwd extra) w)
        = [CmdStr (list2cmdline
             ([''conda'', ''run'', ''-n'', env_name s, ''python'', ''-m'', ''pip'', ''install'']
              @ install_flags extra @ [pkg]))]"
    by (simp add: install_launches pip_install_command_conda)
  from c show "map inv_shell (launched_by (install_package_with_pip s pkg cwd extra) w) = [True]"
    by (simp add: install_launches pip_install_command_conda)
next
  assume v: "\<not> use_conda s \<and> \<not> is_msys_python_base s"
  then show "get_pip_executable_cmd_list s = CmdList [python_executable s, ''-m'', ''pip'']"
    by (simp add: get_pip_executable_cmd_list_def)
  assume "python_executable s \<noteq> ''conda''"
  with v show "map inv_args (launched_by (install_package_with_pip s pkg cwd extra) w)
            = [CmdList ([python_executable s, ''-m'', ''pip'', ''install'']
                 @ install_flags extra @ [pkg])]"
    "map inv_shell (launched_by (install_package_with_pip s pkg cwd extra) w) = [False]"
    by (simp_all add: install_launches pip_install_command_venv)
next
  assume m: "\<not> use_conda s \<and> is_msys_python_base s"
  then show "get_pip_executable_cmd_list s = CmdStr ([dquote] @ python_executable s @ [dquote] @ '' -m pip'')"
    by (simp add: get_pip_executable_cmd_list_def is_msys_python_base_def)
  from m show "map inv_args (launched_by (install_package_with_pip s pkg cwd extra) w)
        = [CmdStr ([dquote] @ python_executable s @ [dquote] @ '' -m pip install ''
             @ join '' '' (map shlex_quote (install_flags extra)) @ '' '' @ shlex_quote pkg)]"
    "map inv_shell (launched_by (install_package_with_pip s pkg cwd extra) w) = [True]"
    by (simp_all add: install_launches pip_install_command_msys)
qed

lemma example_setups:
  "use_conda conda_setup" "env_name conda_setup = ''bagel_env''"
  "\<not> use_conda venv_setup" "\<not> is_msys_python_base venv_setup"
  "python_executable venv_setup = ''/w/bagel_env/bin/python''"
  "\<not> use_conda msys_setup" "is_msys_python_base msys_setup"
  "python_executable msys_setup = ''C:/msys64/env/Scripts/python.exe''"
  by (simp_all add: conda_setup_def venv_setup_def msys_setup_def is_msys_python_base_def
      lower_def lower_char_def)

theorem installer_command_builder_witness:
  "use_conda conda_setup
   \<and> map inv_args (launched_by (install_package_with_pip conda_setup ''gradio'' None None) (quiet_world (always ok) 11))
       = [CmdStr (list2cmdline
            [''conda'', ''run'', ''-n'', ''bagel_env'', ''python'', ''-m'', ''pip'', ''install'',
             ''--no-cache-dir'', ''--disable-pip-version-check'', ''gradio''])]
   \<and> map inv_shell (launched_by (install_package_with_pip conda_setup ''gradio'' None None) (quiet_world (always ok) 11))
       = [True]
   \<and> \<not> use_conda venv_setup \<and> \<not> is_msys_python_base venv_setup
   \<and> python_executable venv_setup \<noteq> ''conda''
   \<and> map inv_args (launched_by (install_package_with_pip venv_setup ''gradio'' None None) (quiet_world (always ok) 11))
       = [CmdList [''/w/bagel_env/bin/python'', ''-m'', ''pip'', ''install'',
             ''--no-cache-dir'', ''--disable-pip-version-check'', ''gradio'']]
   \<and> map inv_shell (launched_by (install_package_with_pip venv_setup ''gradio'' None None) (quiet_world (always ok) 11))
       = [False]
   \<and> \<not> use_conda msys_setup \<and> is_msys_python_base msys_setup
   \<and> get_pip_executable_cmd_list msys_setup
       = CmdStr ([dquote] @ ''C:/msys64/env/Scripts/python.exe'' @ [dquote] @ '' -m pip'')
   \<and> map inv_shell (launched_by (install_package_with_pip msys_setup ''gradio'' None None) (quiet_world (always ok) 11))
       = [True]"
proof -
  have f: "install_flags None = [''--no-cache-dir'', ''--disable-pip-version-check'']"
    by (simp add: install_flags_def startswith_def)
  note t = installer_command_builder [where pkg = "''gradio''" and cwd = None and extra = None
      and w = "quiet_world (always ok) 11"]
  from t [of conda_setup] t [of venv_setup] t [of msys_setup] example_setups f
  show ?thesis by simp
qed

section \<open>Properties of the fallback stage\<close>

text \<open>
  C7. Whenever \<^verbatim>\<open>install_critical_packages_fallback\<close> returns, it has announced and
  launched one installation for every package of the critical list, in the order of the
  list, whatever failed on the way; and it returns true exactly when at least one of them
  was reported as installed.
\<close>

theorem fallback_attempts_every_package:
  assumes "fst (install_critical_packages_fallback s w) = Inr b"
  shows "attempted (printed_by (install_critical_packages_fallback s) w) = critical_pkgs
       \<and> map inv_args (launched_by (install_critical_packages_fallback s) w)
           = map (\<lambda>p. fst (pip_install_command s p None)) critical_pkgs
       \<and> set (installed (printed_by (install_critical_packages_fallback s) w)) \<subseteq> set critical_pkgs
       \<and> b = (installed (printed_by (install_critical_packages_fallback s) w) \<noteq> [])"
  using specD [OF spec_install_critical_packages_fallback, of s w] assms by simp

lemma first_fails_run:
  "(case install_critical_packages_fallback venv_setup (quiet_world (fails_on ''transformers>=4.30.0'') 11) of
      (r, w') \<Rightarrow> (r, installed (printed w')))
   = (Inr True, tl critical_pkgs)"
  by code_simp

theorem fallback_attempts_every_package_witness:
  "fst (install_critical_packages_fallback venv_setup (quiet_world (fails_on ''transformers>=4.30.0'') 11))
     = Inr True
   \<and> attempted (printed_by (install_critical_packages_fallback venv_setup)
         (quiet_world (fails_on ''transformers>=4.30.0'') 11)) = critical_pkgs
   \<and> installed (printed_by (install_critical_packages_fallback venv_setup)
         (quiet_world (fails_on ''transformers>=4.30.0'') 11)) = tl critical_pkgs"
proof -
  let ?w = "quiet_world (fails_on ''transformers>=4.30.0'') 11"
  let ?m = "install_critical_packages_fallback venv_setup"
  obtain r w' where run: "?m ?w = (r, w')" by (cases "?m ?w")
  with first_fails_run have r: "r = Inr True" and i: "installed (printed w') = tl critical_pkgs"
    by simp_all
  from run r have h: "fst (?m ?w) = Inr True" by simp
  from run i have "installed (printed_by ?m ?w) = tl critical_pkgs"
    by (simp add: printed_by_def)
  with fallback_attempts_every_package [OF h] h show ?thesis by simp
qed


section \<open>Properties of the Environment Provisioner\<close>

lemma prepare_list [simp]:
  "prepare_command (CmdList args) False = Inr (Some (command_to_log args, CmdList args))"
  by (simp add: prepare_command_def)


lemma probe_result_simps [simp]:
  "probe_result (Exited returncode out err) = Inr (True, out, err)"
  "probe_result (PopenFileNotFound filename m) = Inr (False, [], m)"
  "probe_result (PopenException m) = Inr (False, [], m)"
  "probe_result PopenInterrupt = Inl KeyboardInterrupt"
  by (simp_all add: probe_result_def)

lemma run_spec_run_command_probe:
  assumes "prepare_command cmd shell = Inr (Some (log, actual))"
    and "\<And>filename. \<not> no_name_to_report filename actual log"
  shows "run_spec (run_command s cmd True False shell cwd) w
     (\<lambda>r ms is as. list_all from_run ms \<and> is = [the_invocation s actual True shell cwd]
        \<and> r = probe_result (as ! 0))"
  unfolding run_command_launched [OF assms(1)]
  using assms(2) failed_file_reported_cases [of _ actual log]
  apply (intro run_spec_rules)
  apply (simp add: say_if_def Let_def split: popen_result.split sum.split option.split prod.split)
  apply (intro allI impI conjI run_spec_rules)
  apply (auto simp add: say_if_def Let_def intro!: run_spec_rules split: popen_result.split sum.split option.split prod.split)
   apply (metis Inl_Inr_False)+
  done

lemma run_spec_conda_probe:
  "run_spec (run_command s (CmdList (a # args)) True False False None) w
     (\<lambda>r ms is as. list_all from_run ms
        \<and> is = [the_invocation s (CmdList (a # args)) True False None]
        \<and> r = probe_result (as ! 0))"
  by (rule run_spec_run_command_probe [OF prepare_list]) (rule named_by_list)

lemma run_spec_conda_strict:
  "run_spec (run_command s (CmdList (a # args)) True True False None) w
     (\<lambda>r ms is as. list_all from_run ms
        \<and> is = [the_invocation s (CmdList (a # args)) True False None]
        \<and> r = strict_result (as ! 0))"
  by (rule run_spec_run_command_strict [OF prepare_list]) (rule named_by_list)

lemma run_spec_find_env_python:
  "run_spec (find_env_python s envs) w
     (\<lambda>r ms is as. ms = [] \<and> is = []
        \<and> (\<exists>x. r = Inr x)
        \<and> (\<not> list_ex (\<lambda>env_path. path_name s env_path = env_name s
                        \<and> fs_exists w (executed w) (env_python s env_path)) envs
            \<longrightarrow> r = Inr None))"
proof (induction envs arbitrary: w)
  case Nil
  then show ?case by (simp add: run_spec_retM)
next
  case (Cons e envs)
  show ?case
    unfolding find_env_python.simps
    by ((intro run_spec_rules run_spec_weaken [OF Cons.IH] allI impI conjI
         | simp add: Let_def extends_def split: sum.split prod.split
         | (auto split: sum.splits)[1])+)
qed

lemma probe_unresolved:
  "probe_result a = Inr (False, out, err) \<Longrightarrow> lookup_unresolved s parse exists a"
  by (cases a) (simp_all add: lookup_unresolved_def)

lemma probe_parsed:
  "probe_result a = Inr (True, out, err) \<Longrightarrow>
   lookup_unresolved s parse exists a
     = (case parse out of JsonDecodeError \<Rightarrow> True
        | JsonEnvs envs \<Rightarrow>
            \<not> list_ex (\<lambda>env_path. path_name s env_path = env_name s \<and> exists (env_python s env_path)) envs
        | JsonFault e \<Rightarrow> False)"
  by (cases a) (simp_all add: lookup_unresolved_def)

lemma probe_interrupted:
  "probe_result a = Inl e \<Longrightarrow> \<not> lookup_unresolved s parse exists a"
  by (cases a) (simp_all add: lookup_unresolved_def)

lemma run_spec_update_python_executable_for_conda_env:
  "run_spec (update_python_executable_for_conda_env s) w
     (\<lambda>r ms is as. is = [lookup_invocation s]
        \<and> (lookup_unresolved s (json_loads_envs w)
              (fs_exists w (executed w @ [lookup_invocation s])) (as ! 0)
            \<longrightarrow> r = Inr s \<and> Env PyUndetermined \<in> set ms))"
  unfolding update_python_executable_for_conda_env_def lookup_invocation_def json_cmd_def
  by ((intro run_spec_rules run_spec_weaken [OF run_spec_conda_probe]
        run_spec_weaken [OF run_spec_find_env_python] allI impI conjI
       | simp add: Let_def extends_def probe_unresolved probe_parsed probe_interrupted
           split: sum.split prod.split json_envs.split option.split
       | (auto split: sum.splits)[1])+)


lemma lookup_invocation_distinct [simp]:
  "create_invocation s v \<noteq> lookup_invocation s"
  "list_invocation s \<noteq> lookup_invocation s"
  "the_invocation s (CmdList [''conda'', ''env'', ''remove'', ''-n'', env_name s, ''-y'']) True False None
     \<noteq> lookup_invocation s"
  by (simp_all add: create_invocation_def list_invocation_def lookup_invocation_def the_invocation_def
      create_cmd_list_def json_cmd_def)

lemma run_spec_create:
  "run_spec (run_command s (CmdList (create_cmd_list s v)) True True False None) w
     (\<lambda>r ms is as. list_all from_run ms \<and> is = [create_invocation s v]
        \<and> r = strict_result (as ! 0))"
  unfolding create_invocation_def create_cmd_list_def by (rule run_spec_conda_strict)

lemma run_spec_list:
  "run_spec (run_command s (CmdList [''conda'', ''env'', ''list'']) True False False None) w
     (\<lambda>r ms is as. list_all from_run ms \<and> is = [list_invocation s]
        \<and> r = probe_result (as ! 0))"
  unfolding list_invocation_def by (rule run_spec_conda_probe)

lemma run_spec_remove:
  "run_spec (run_command s (CmdList [''conda'', ''env'', ''remove'', ''-n'', env_name s, ''-y''])
               True True False None) w
     (\<lambda>r ms is as. list_all from_run ms
        \<and> is = [the_invocation s (CmdList [''conda'', ''env'', ''remove'', ''-n'', env_name s, ''-y''])
                  True False None]
        \<and> r = strict_result (as ! 0))"
  by (rule run_spec_conda_strict)

lemma last_append_one: "length ys = Suc 0 \<Longrightarrow> last (xs @ ys) = ys ! 0"
  by (cases ys) simp_all

lemma last_append_answers:
  "length as = length is \<Longrightarrow> is \<noteq> [] \<Longrightarrow> last (xs @ as) = last as"
  "length as = length is \<Longrightarrow> is \<noteq> [] \<Longrightarrow> last (xs @ ys @ as) = last as"
  "length as = length is \<Longrightarrow> is \<noteq> [] \<Longrightarrow> last (xs @ ys @ zs @ as) = last as"
  by (cases as; auto)+

lemma last_append_ones:
  "length ys = Suc 0 \<Longrightarrow> last (xs @ zs @ ys) = ys ! 0"
  "length ys = Suc 0 \<Longrightarrow> last (xs @ zs @ us @ ys) = ys ! 0"
  by (cases ys; simp)+

lemma run_spec_create_loop_lookup:
  "run_spec (create_loop s vs) w
     (\<lambda>r ms is as.
        is \<noteq> [] \<and> last is = lookup_invocation s
        \<and> lookup_unresolved s (json_loads_envs w) (fs_exists w (executed w @ is)) (last as)
        \<longrightarrow> r = Inr (True, s) \<and> Env PyUndetermined \<in> set ms)"
proof (induction vs arbitrary: w)
  case Nil
  then show ?case by (simp add: run_spec_retM)
next
  case (Cons v vs)
  show ?case
    unfolding create_loop.simps
    by ((intro run_spec_rules run_spec_weaken [OF run_spec_create]
          run_spec_weaken [OF run_spec_update_python_executable_for_conda_env]
          run_spec_weaken [OF Cons.IH] allI impI conjI
         | simp add: say_if_def Let_def extends_def last_append_one last_append_ones last_append_answers
             split: sum.split prod.split
         | (auto simp: last_append_one last_append_ones last_append_answers split: sum.splits if_splits)[1])+)
qed


lemma run_spec_create_new_lookup:
  "run_spec (create_new_conda_environment s) w
     (\<lambda>r ms is as.
        is \<noteq> [] \<and> last is = lookup_invocation s
        \<and> lookup_unresolved s (json_loads_envs w) (fs_exists w (executed w @ is)) (last as)
        \<longrightarrow> r = Inr (True, s) \<and> Env PyUndetermined \<in> set ms)"
  unfolding create_new_conda_environment_def create_with_versions_def
  by ((intro run_spec_rules run_spec_weaken [OF run_spec_create_loop_lookup] allI impI conjI
       | simp add: say_if_def Let_def extends_def last_append_one last_append_ones last_append_answers
           del: create_loop.simps split: sum.split prod.split
       | (auto simp: last_append_one last_append_ones last_append_answers split: sum.splits if_splits)[1])+)

lemma run_spec_create_conda_environment_lookup:
  "run_spec (create_conda_environment s) w
     (\<lambda>r ms is as.
        is \<noteq> [] \<and> last is = lookup_invocation s
        \<and> lookup_unresolved s (json_loads_envs w) (fs_exists w (executed w @ is)) (last as)
        \<longrightarrow> r = Inr (True, s) \<and> Env PyUndetermined \<in> set ms)"
  unfolding create_conda_environment_def
  by ((intro run_spec_rules run_spec_weaken [OF run_spec_list] run_spec_weaken [OF run_spec_remove]
        run_spec_weaken [OF run_spec_update_python_executable_for_conda_env]
        run_spec_weaken [OF run_spec_create_new_lookup] allI impI conjI
       | simp add: say_if_def Let_def extends_def last_append_one last_append_ones last_append_answers
           split: sum.split prod.split
       | (auto simp: last_append_one last_append_ones last_append_answers split: sum.splits if_splits)[1])+)

lemma leading_failures_simps [simp]:
  "leading_failures [] = 0"
  "leading_failures (a # as) = (if failure a then Suc (leading_failures as) else 0)"
  by (simp_all add: leading_failures_def)








lemma conda_host_empty [simp]:
  "printed (conda_host missing n) = []" "executed (conda_host missing n) = []"
  "host_minor (conda_host missing n) = n" "respond (conda_host missing n) = conda_answers missing"
  by (simp_all add: conda_host_def quiet_world_def)








text \<open>
  C6, as the code has it. The interpreter lookup is the last command of a run of
  \<^verbatim>\<open>create_conda_environment\<close> that created an environment or took an existing one into
  use. When the lookup is unresolved - its launch raises an exception, its output is not
  JSON, or no environment in it has the name and an interpreter that exists - the stage
  returns success, the installer object, with its interpreter path, is as it was, and the
  warning that the interpreter could not be determined is printed.
\<close>

theorem unresolved_interpreter_is_not_a_failure:
  assumes "launched_by (create_conda_environment s) w \<noteq> []"
    and "last (launched_by (create_conda_environment s) w) = lookup_invocation s"
    and "lookup_unresolved s (json_loads_envs w)
           (fs_exists w (executed w @ launched_by (create_conda_environment s) w))
           (last (answers_by (create_conda_environment s) w))"
  shows "fst (create_conda_environment s w) = Inr (True, s)
       \<and> Env PyUndetermined \<in> set (printed_by (create_conda_environment s) w)"
  using run_specD [OF run_spec_create_conda_environment_lookup, of s w] assms by simp


lemma unresolved_run:
  "(case create_conda_environment conda_setup (conda_host [] 11) of
      (r, w') \<Rightarrow> (r, Env PyUndetermined \<in> set (printed w'), executed w' \<noteq> [],
         last (executed w') = lookup_invocation conda_setup,
         lookup_unresolved conda_setup parse_registry (every_path (executed w'))
           (last (answers (conda_answers []) [] (executed w')))))
   = (Inr (True, conda_setup), True, True, True, True)"
  by code_simp

theorem unresolved_interpreter_is_not_a_failure_witness:
  "launched_by (create_conda_environment conda_setup) (conda_host [] 11) \<noteq> []
   \<and> last (launched_by (create_conda_environment conda_setup) (conda_host [] 11))
       = lookup_invocation conda_setup
   \<and> lookup_unresolved conda_setup (json_loads_envs (conda_host [] 11))
       (fs_exists (conda_host [] 11)
          (executed (conda_host [] 11)
           @ launched_by (create_conda_environment conda_setup) (conda_host [] 11)))
       (last (answers_by (create_conda_environment conda_setup) (conda_host [] 11)))
   \<and> fst (create_conda_environment conda_setup (conda_host [] 11)) = Inr (True, conda_setup)
   \<and> Env PyUndetermined \<in> set (printed_by (create_conda_environment conda_setup) (conda_host [] 11))
   \<and> python_executable conda_setup = ''/usr/bin/python3''"
proof -
  let ?w = "conda_host [] 11"
  let ?m = "create_conda_environment conda_setup"
  have j: "json_loads_envs ?w = parse_registry" "fs_exists ?w = every_path"
    by (simp_all add: conda_host_def quiet_world_def)
  obtain r w' where run: "?m ?w = (r, w')" by (cases "?m ?w")
  with unresolved_run have e: "executed w' \<noteq> []"
    and l: "last (executed w') = lookup_invocation conda_setup"
    and u: "lookup_unresolved conda_setup parse_registry (every_path (executed w'))
              (last (answers (conda_answers []) [] (executed w')))"
    by simp_all
  from run e have 1: "launched_by ?m ?w \<noteq> []" by (simp add: launched_by_def)
  from run l have 2: "last (launched_by ?m ?w) = lookup_invocation conda_setup"
    by (simp add: launched_by_def)
  from run u have 3: "lookup_unresolved conda_setup (json_loads_envs ?w)
       (fs_exists ?w (executed ?w @ launched_by ?m ?w)) (last (answers_by ?m ?w))"
    by (simp add: launched_by_def answers_by_def j)
  have "python_executable conda_setup = ''/usr/bin/python3''"
    by (simp add: conda_setup_def)
  with unresolved_interpreter_is_not_a_failure [OF 1 2 3] 1 2 3 show ?thesis by simp
qed

text \<open>
  C6 as stated fails: the environment is created, the registry of conda has no environment
  of that name, the warning is printed and the stage reports success.
\<close>

theorem unresolved_interpreter_reported_as_success_counterexample:
  "fst (create_conda_environment conda_setup (conda_host [] 11)) = Inr (True, conda_setup)
   \<and> Env PyUndetermined \<in> set (printed_by (create_conda_environment conda_setup) (conda_host [] 11))"
proof -
  let ?w = "conda_host [] 11"
  let ?m = "create_conda_environment conda_setup"
  obtain r w' where run: "?m ?w = (r, w')" by (cases "?m ?w")
  with unresolved_run have r: "r = Inr (True, conda_setup)" and u: "Env PyUndetermined \<in> set (printed w')"
    by simp_all
  with run show ?thesis by (simp add: printed_by_def)
qed


section \<open>Properties of the top level\<close>

text \<open>
  C9. Whatever the orchestrator does, the \<^verbatim>\<open>try\<close> statement of \<^verbatim>\<open>main\<close> ends the
  process with status 0 when it returns true, 1 when it returns false, 2 when it raises
  an \<^verbatim>\<open>Exception\<close>, and 130 when it raises \<^verbatim>\<open>KeyboardInterrupt\<close>.
\<close>

theorem main_exit_status:
  "(fst (run_setup w) = Inr True \<longrightarrow> exit_status (fst (main_try run_setup w)) = 0)
   \<and> (fst (run_setup w) = Inr False \<longrightarrow> exit_status (fst (main_try run_setup w)) = 1)
   \<and> (fst (run_setup w) = Inl e \<and> is_Exception e \<longrightarrow> exit_status (fst (main_try run_setup w)) = 2)
   \<and> (fst (run_setup w) = Inl KeyboardInterrupt \<longrightarrow> exit_status (fst (main_try run_setup w)) = 130)"
  by (cases "run_setup w"; cases e)
     (auto simp: main_try_def main_body_def exit_status_def monad_defs split: sum.splits)

theorem main_exit_status_witness:
  "fst (retM True (quiet_world (always ok) 11)) = Inr True
   \<and> exit_status (fst (main_try (retM True) (quiet_world (always ok) 11))) = 0
   \<and> fst (retM False (quiet_world (always ok) 11)) = Inr False
   \<and> exit_status (fst (main_try (retM False) (quiet_world (always ok) 11))) = 1
   \<and> fst (install_gradio msys_setup (quiet_world (always ok) 11)) = Inl UnboundLocalError
   \<and> is_Exception UnboundLocalError
   \<and> exit_status (fst (main_try (install_gradio msys_setup) (quiet_world (always ok) 11))) = 2
   \<and> fst (interrupted_setup (quiet_world (always PopenInterrupt) 11)) = Inl KeyboardInterrupt
   \<and> exit_status (fst (main_try interrupted_setup (quiet_world (always PopenInterrupt) 11))) = 130"
proof -
  have a: "fst (retM True (quiet_world (always ok) 11)) = Inr True"
    and b: "fst (retM False (quiet_world (always ok) 11)) = Inr False"
    by (simp_all add: retM_def)
  have c: "fst (install_gradio msys_setup (quiet_world (always ok) 11)) = Inl UnboundLocalError"
  proof -
    have "system msys_setup = ''windows''" by (simp add: msys_setup_def)
    then show ?thesis
      by (simp add: install_gradio_def gradio_check_command_def get_pip_executable_cmd_list_def
          example_setups monad_defs)
  qed
  have d: "fst (interrupted_setup (quiet_world (always PopenInterrupt) 11)) = Inl KeyboardInterrupt"
    by (simp add: interrupted_setup_def run_command_def monad_defs quiet_world_def always_def)
  have e: "is_Exception UnboundLocalError" by simp
  from main_exit_status [of "retM True" "quiet_world (always ok) 11"]
       main_exit_status [of "retM False" "quiet_world (always ok) 11"]
       main_exit_status [of "install_gradio msys_setup" "quiet_world (always ok) 11" UnboundLocalError]
       main_exit_status [of interrupted_setup "quiet_world (always PopenInterrupt) 11"]
       a b c d e
  show ?thesis by simp
qed


end
